theory Spec2Isabelle
  imports Complex_Main "HOL-Library.Word"
begin

section \<open>Tilemap renderers: a shallow embedding of \<^verbatim>\<open>src/renderer.py\<close>\<close>

text \<open>
  How the Python of the renderer module is read here.
  \<^item> An integer of the program is an \<open>int\<close>. Floor division and remainder agree with the
    HOL operations whenever the divisor is not zero; the zero divisor is the branch
    \<open>ZeroDivisionError\<close> of the model.
  \<^item> A float of the program is a \<open>real\<close>. The model says nothing about rounding, nor
    about the narrowing to 32 bits when a buffer is uploaded. The conversion of an
    integer to a float, which raises beyond the range of a double, is written out in
    a second reading of the per-vertex builder.
  \<^item> An exception is a value of the type \<open>error\<close>, and a function that may raise has a
    result of type \<open>error + 'a\<close>, the exception on the left.
  \<^item> The constants module imported by the renderer is not among the sources read, so
    its constants are the fields of a record passed to every function.
\<close>

subsection \<open>Constants and errors\<close>

record constants =
  TEXTURE_TILE_SIZE_PX :: int
  TEXTURE_N_TILES_PER_ROW :: int
  TEXTURE_TILE_SIZE_NORMALIZED :: real
  TEXTURE_TILE_PADDING :: real
  TILEMAP_N_ROWS :: int
  TILEMAP_N_COLS :: int

datatype error =
    ZeroDivisionError
  | IndexError
  | TypeError
  | ValueError
  | ArgumentError
  | OverflowError
  | RuntimeError string
  | GLException

text \<open>One statement after another: an exception in the first skips the second.\<close>

definition and_then :: "error + 'a \<Rightarrow> ('a \<Rightarrow> error + 'b) \<Rightarrow> error + 'b" where
  "and_then r f = (case r of Inl e \<Rightarrow> Inl e | Inr v \<Rightarrow> f v)"

text \<open>Python's \<^verbatim>\<open>range(n)\<close>: empty when \<open>n \<le> 0\<close>.\<close>

definition py_range :: "int \<Rightarrow> int list" where
  "py_range n = map int [0..<nat n]"

subsection \<open>Projection matrix\<close>

text \<open>
  \<^verbatim>\<open>pyglet.math.Mat4\<close> is a tuple of 16 numbers in column-major order: entry
  \<open>4 * c + r\<close> is the element of column \<open>c\<close> and row \<open>r\<close>. The three functions below
  follow pyglet: \<^verbatim>\<open>Mat4()\<close> is the identity, \<^verbatim>\<open>from_translation\<close> puts the vector in
  the last column, \<^verbatim>\<open>from_scale\<close> puts it on the diagonal, and \<^verbatim>\<open>a @ b\<close> sums the
  products of the rows of \<open>a\<close> (slices \<^verbatim>\<open>a[r::4]\<close>) with the columns of \<open>b\<close>
  (slices \<^verbatim>\<open>b[4*c:4*c+4]\<close>).
\<close>

type_synonym mat4 = "real list"
type_synonym vec3 = "real \<times> real \<times> real"
type_synonym vec4 = "real \<times> real \<times> real \<times> real"

definition Mat4 :: mat4 where
  "Mat4 = [1, 0, 0, 0,
           0, 1, 0, 0,
           0, 0, 1, 0,
           0, 0, 0, 1]"

fun from_translation :: "vec3 \<Rightarrow> mat4" where
  "from_translation (vx, vy, vz) =
     [1, 0, 0, 0,
      0, 1, 0, 0,
      0, 0, 1, 0,
      vx, vy, vz, 1]"

fun from_scale :: "vec3 \<Rightarrow> mat4" where
  "from_scale (vx, vy, vz) =
     [vx, 0, 0, 0,
      0, vy, 0, 0,
      0, 0, vz, 0,
      0, 0, 0, 1]"

definition mat_row :: "mat4 \<Rightarrow> nat \<Rightarrow> real list" where
  "mat_row m r = [m ! r, m ! (r + 4), m ! (r + 8), m ! (r + 12)]"

definition mat_col :: "mat4 \<Rightarrow> nat \<Rightarrow> real list" where
  "mat_col m c = [m ! (4 * c), m ! (4 * c + 1), m ! (4 * c + 2), m ! (4 * c + 3)]"

definition dot :: "real list \<Rightarrow> real list \<Rightarrow> real" where
  "dot u v = sum_list (map (\<lambda>(a, b). a * b) (zip u v))"

definition matmul :: "mat4 \<Rightarrow> mat4 \<Rightarrow> mat4" where
  "matmul a b =
     concat (map (\<lambda>c. map (\<lambda>r. dot (mat_col b c) (mat_row a r)) [0, 1, 2, 3]) [0, 1, 2, 3])"

text \<open>
  The vertex stage multiplies the matrix with the column vector \<open>(x, y, 0, 1)\<close> of a
  vertex position; the product of a column-major matrix with a column vector is the dot
  product of each row with the vector.
\<close>

fun mat_apply :: "mat4 \<Rightarrow> vec4 \<Rightarrow> vec4" where
  "mat_apply m (x, y, z, w) =
     (dot (mat_row m 0) [x, y, z, w], dot (mat_row m 1) [x, y, z, w],
      dot (mat_row m 2) [x, y, z, w], dot (mat_row m 3) [x, y, z, w])"

fun clip_xy :: "vec4 \<Rightarrow> real \<times> real" where
  "clip_xy (x, y, z, w) = (x, y)"

text \<open>Python's true division \<^verbatim>\<open>a / b\<close> of two integers.\<close>

definition py_truediv :: "int \<Rightarrow> int \<Rightarrow> error + real" where
  "py_truediv a b = (if b = 0 then Inl ZeroDivisionError else Inr (real_of_int a / real_of_int b))"

text \<open>\<^verbatim>\<open>_AbstractRenderer._get_projection_matrix\<close>.\<close>

definition get_projection_matrix :: "constants \<Rightarrow> error + mat4" where
  "get_projection_matrix C =
     and_then (py_truediv (- TILEMAP_N_COLS C) 2) (\<lambda>mx.
     and_then (py_truediv (- TILEMAP_N_ROWS C) 2) (\<lambda>my.
     let model_matrix = from_translation (mx, my, 0);
         view_matrix = Mat4
     in and_then (py_truediv 2 (TILEMAP_N_COLS C)) (\<lambda>sx.
        and_then (py_truediv 2 (TILEMAP_N_ROWS C)) (\<lambda>sy.
        let proj_matrix = from_scale (sx, sy, 0)
        in Inr (matmul (matmul proj_matrix view_matrix) model_matrix)))))"

subsection \<open>Atlas rectangle of a tile\<close>

text \<open>
  Lines 236 to 238 of \<^verbatim>\<open>VertexBufferedRenderer._update_vbo\<close> (and the same lines of
  \<^verbatim>\<open>Pyglet_VertexBufferedRenderer._update_vbo\<close>): the rectangle \<open>(tx0, ty0, tSize)\<close>
  of a tile in the texture atlas.
\<close>

definition py_mod :: "int \<Rightarrow> int \<Rightarrow> error + int" where
  "py_mod a b = (if b = 0 then Inl ZeroDivisionError else Inr (a mod b))"

definition py_floordiv :: "int \<Rightarrow> int \<Rightarrow> error + int" where
  "py_floordiv a b = (if b = 0 then Inl ZeroDivisionError else Inr (a div b))"

definition atlas_rect :: "constants \<Rightarrow> int \<Rightarrow> error + (real \<times> real \<times> real)" where
  "atlas_rect C tile =
     and_then (py_mod tile (TEXTURE_N_TILES_PER_ROW C)) (\<lambda>col.
     let tx0 = real_of_int col * TEXTURE_TILE_SIZE_NORMALIZED C + TEXTURE_TILE_PADDING C
     in and_then (py_floordiv tile (TEXTURE_N_TILES_PER_ROW C)) (\<lambda>row.
        let ty0 = real_of_int row * TEXTURE_TILE_SIZE_NORMALIZED C + TEXTURE_TILE_PADDING C;
            tSize = TEXTURE_TILE_SIZE_NORMALIZED C - TEXTURE_TILE_PADDING C * 2
        in Inr (tx0, ty0, tSize)))"

subsection \<open>Lists and loops\<close>

text \<open>
  Reading \<^verbatim>\<open>xs[k]\<close> and writing \<^verbatim>\<open>xs[k] = v\<close> on a Python list: an index outside the
  list raises \<open>IndexError\<close>. A negative index of a read counts from the end; the indices
  written by the renderer are counters that start at zero, so they are naturals.
\<close>

definition list_getitem :: "'a list \<Rightarrow> int \<Rightarrow> error + 'a" where
  "list_getitem xs k =
     (let n = int (length xs); j = (if k < 0 then k + n else k)
      in if 0 \<le> j \<and> j < n then Inr (xs ! nat j) else Inl IndexError)"

definition list_setitem :: "'a list \<Rightarrow> nat \<Rightarrow> 'a \<Rightarrow> error + 'a list" where
  "list_setitem xs k v = (if k < length xs then Inr (xs[k := v]) else Inl IndexError)"

text \<open>A \<^verbatim>\<open>for\<close> loop over a list, threading the variables it assigns.\<close>

primrec for_loop :: "'a list \<Rightarrow> ('a \<Rightarrow> 's \<Rightarrow> error + 's) \<Rightarrow> 's \<Rightarrow> error + 's" where
  "for_loop [] body s = Inr s"
| "for_loop (x # xs) body s = and_then (body x s) (for_loop xs body)"

subsection \<open>The tilemap\<close>

text \<open>
  Modelled from the spec: the tilemap class, which is not among the sources read. The
  spec describes it as a row-major grid of tile indices with fixed dimensions, offering
  the tile count (\<^verbatim>\<open>len(tilemap)\<close>), a 2D lookup (\<^verbatim>\<open>tilemap[y, x]\<close>), its linear
  backing buffer (\<^verbatim>\<open>tilemap.map\<close>) and a texture handle (\<^verbatim>\<open>tilemap.texture.id\<close>).
\<close>

record tilemap =
  map_tm :: "int list"
  texture :: nat

text \<open>Modelled from the spec: \<^verbatim>\<open>len(tilemap)\<close>, the tile count of the missing tilemap class.\<close>

definition tilemap_len :: "tilemap \<Rightarrow> nat" where
  "tilemap_len tm = length (map_tm tm)"

text \<open>
  Modelled from the spec: \<^verbatim>\<open>tilemap[y, x]\<close> of the missing tilemap class, the lookup in
  the row-major buffer with \<open>TILEMAP_N_COLS\<close> tiles in a row.
\<close>

definition tilemap_getitem :: "constants \<Rightarrow> tilemap \<Rightarrow> int \<times> int \<Rightarrow> error + int" where
  "tilemap_getitem C tm = (\<lambda>(y, x). list_getitem (map_tm tm) (y * TILEMAP_N_COLS C + x))"

subsection \<open>Vertex data of \<^verbatim>\<open>VertexBufferedRenderer\<close>\<close>

text \<open>
  The four assignments of one vertex, \<^verbatim>\<open>vertex_data[i + 0] = px\<close> to
  \<^verbatim>\<open>vertex_data[i + 3] = ty\<close>, followed by \<^verbatim>\<open>i += 4\<close>.
\<close>

definition put_vertex ::
  "real list \<Rightarrow> nat \<Rightarrow> real \<Rightarrow> real \<Rightarrow> real \<Rightarrow> real \<Rightarrow> error + (real list \<times> nat)" where
  "put_vertex vertex_data i px py tx ty =
     and_then (list_setitem vertex_data (i + 0) px) (\<lambda>vertex_data.
     and_then (list_setitem vertex_data (i + 1) py) (\<lambda>vertex_data.
     and_then (list_setitem vertex_data (i + 2) tx) (\<lambda>vertex_data.
     and_then (list_setitem vertex_data (i + 3) ty) (\<lambda>vertex_data.
     Inr (vertex_data, i + 4)))))"

text \<open>The body of the two nested loops of \<^verbatim>\<open>VertexBufferedRenderer._update_vbo\<close>.\<close>

definition vertex_tile ::
  "constants \<Rightarrow> tilemap \<Rightarrow> int \<Rightarrow> int \<Rightarrow> real list \<times> nat \<Rightarrow> error + (real list \<times> nat)" where
  "vertex_tile C tm x y = (\<lambda>(vertex_data, i).
     and_then (tilemap_getitem C tm (y, x)) (\<lambda>tile.
     and_then (atlas_rect C tile) (\<lambda>(tx0, ty0, tSize).
     and_then (put_vertex vertex_data i (real_of_int x) (real_of_int y) tx0 ty0)
       (\<lambda>(vertex_data, i).
     and_then (put_vertex vertex_data i (real_of_int (x + 1)) (real_of_int y) (tx0 + tSize) ty0)
       (\<lambda>(vertex_data, i).
     and_then (put_vertex vertex_data i (real_of_int x) (real_of_int (y + 1)) tx0 (ty0 + tSize))
       (\<lambda>(vertex_data, i).
     and_then (put_vertex vertex_data i (real_of_int (x + 1)) (real_of_int y) (tx0 + tSize) ty0)
       (\<lambda>(vertex_data, i).
     and_then (put_vertex vertex_data i (real_of_int x) (real_of_int (y + 1)) tx0 (ty0 + tSize))
       (\<lambda>(vertex_data, i).
     put_vertex vertex_data i (real_of_int (x + 1)) (real_of_int (y + 1))
       (tx0 + tSize) (ty0 + tSize)))))))))"

text \<open>
  Lines 221 to 280 of \<^verbatim>\<open>VertexBufferedRenderer._update_vbo\<close>: the list of floats that
  the method uploads afterwards.
\<close>

definition VertexBufferedRenderer_vertex_data :: "constants \<Rightarrow> tilemap \<Rightarrow> error + real list" where
  "VertexBufferedRenderer_vertex_data C tm =
     (let float_count = tilemap_len tm * 6 * 2 * 2;
          vertex_data = replicate float_count 0
      in and_then
           (for_loop (py_range (TILEMAP_N_COLS C)) (\<lambda>x.
              for_loop (py_range (TILEMAP_N_ROWS C)) (\<lambda>y. vertex_tile C tm x y))
              (vertex_data, 0))
           (\<lambda>(vertex_data, i). Inr vertex_data))"

subsection \<open>The same builder with the conversion of integers to floats\<close>

text \<open>
  The definitions above read the product of an integer and a float as a product of real
  numbers. Python converts the integer to a float first, and this conversion is the one
  step of lines 236 to 238 that can raise besides the division: an integer whose nearest
  double would lie beyond the largest double, that is an integer of absolute value
  \<open>2 ^ 1024 - 2 ^ 970\<close> or more, raises \<open>OverflowError\<close>. The product and the sums of
  floats raise nothing. The definitions of this subsection are the same lines with that
  conversion written out; the value of a conversion that succeeds is still the real
  number.
\<close>

definition int_to_float :: "int \<Rightarrow> error + real" where
  "int_to_float k = (if \<bar>k\<bar> < 2 ^ 1024 - 2 ^ 970 then Inr (real_of_int k) else Inl OverflowError)"

text \<open>Lines 236 to 238, in the order in which Python evaluates them.\<close>

definition atlas_rect_checked :: "constants \<Rightarrow> int \<Rightarrow> error + (real \<times> real \<times> real)" where
  "atlas_rect_checked C tile =
     and_then (py_mod tile (TEXTURE_N_TILES_PER_ROW C)) (\<lambda>col.
     and_then (int_to_float col) (\<lambda>col.
     let tx0 = col * TEXTURE_TILE_SIZE_NORMALIZED C + TEXTURE_TILE_PADDING C
     in and_then (py_floordiv tile (TEXTURE_N_TILES_PER_ROW C)) (\<lambda>row.
        and_then (int_to_float row) (\<lambda>row.
        let ty0 = row * TEXTURE_TILE_SIZE_NORMALIZED C + TEXTURE_TILE_PADDING C;
            tSize = TEXTURE_TILE_SIZE_NORMALIZED C - TEXTURE_TILE_PADDING C * 2
        in Inr (tx0, ty0, tSize)))))"

text \<open>The body of the two loops, lines 232 to 280, with that rectangle.\<close>

definition vertex_tile_checked ::
  "constants \<Rightarrow> tilemap \<Rightarrow> int \<Rightarrow> int \<Rightarrow> real list \<times> nat \<Rightarrow> error + (real list \<times> nat)" where
  "vertex_tile_checked C tm x y = (\<lambda>(vertex_data, i).
     and_then (tilemap_getitem C tm (y, x)) (\<lambda>tile.
     and_then (atlas_rect_checked C tile) (\<lambda>(tx0, ty0, tSize).
     and_then (put_vertex vertex_data i (real_of_int x) (real_of_int y) tx0 ty0)
       (\<lambda>(vertex_data, i).
     and_then (put_vertex vertex_data i (real_of_int (x + 1)) (real_of_int y) (tx0 + tSize) ty0)
       (\<lambda>(vertex_data, i).
     and_then (put_vertex vertex_data i (real_of_int x) (real_of_int (y + 1)) tx0 (ty0 + tSize))
       (\<lambda>(vertex_data, i).
     and_then (put_vertex vertex_data i (real_of_int (x + 1)) (real_of_int y) (tx0 + tSize) ty0)
       (\<lambda>(vertex_data, i).
     and_then (put_vertex vertex_data i (real_of_int x) (real_of_int (y + 1)) tx0 (ty0 + tSize))
       (\<lambda>(vertex_data, i).
     put_vertex vertex_data i (real_of_int (x + 1)) (real_of_int (y + 1))
       (tx0 + tSize) (ty0 + tSize)))))))))"

text \<open>Lines 221 to 280 of \<^verbatim>\<open>VertexBufferedRenderer._update_vbo\<close> with that body.\<close>

definition VertexBufferedRenderer_vertex_data_checked ::
  "constants \<Rightarrow> tilemap \<Rightarrow> error + real list" where
  "VertexBufferedRenderer_vertex_data_checked C tm =
     (let float_count = tilemap_len tm * 6 * 2 * 2;
          vertex_data = replicate float_count 0
      in and_then
           (for_loop (py_range (TILEMAP_N_COLS C)) (\<lambda>x.
              for_loop (py_range (TILEMAP_N_ROWS C)) (\<lambda>y. vertex_tile_checked C tm x y))
              (vertex_data, 0))
           (\<lambda>(vertex_data, i). Inr vertex_data))"

subsection \<open>Vertex data of \<^verbatim>\<open>GeomBufferedRenderer\<close>\<close>

text \<open>
  Lines 349 to 352 of \<^verbatim>\<open>GeomBufferedRenderer._update_vbo\<close>: the backing buffer of the
  tilemap, each entry stored in a \<^verbatim>\<open>ctypes.c_uint32\<close>, which keeps the low 32 bits of the
  integer and checks no range.
\<close>

definition GeomBufferedRenderer_vertex_data :: "tilemap \<Rightarrow> 32 word list" where
  "GeomBufferedRenderer_vertex_data tm = map word_of_int (map_tm tm)"

subsection \<open>Vertex data of \<^verbatim>\<open>Pyglet_VertexBufferedRenderer\<close>\<close>

text \<open>
  The vertex list that pyglet allocates for the shader program holds one array for each
  attribute of the vertex shader. Both attributes of the shader shared with
  \<^verbatim>\<open>VertexBufferedRenderer\<close> have two components (its \<^verbatim>\<open>_update_vao\<close> declares them so),
  hence two floats for each vertex in each array.
\<close>

record vertex_list =
  aPosition :: "real list"
  aTexCoord :: "real list"

text \<open>\<^verbatim>\<open>Pyglet_VertexBufferedRenderer._allocate_vbo_vao\<close>.\<close>

definition Pyglet_allocate_vbo_vao :: "tilemap \<Rightarrow> vertex_list" where
  "Pyglet_allocate_vbo_vao tm =
     (let vertex_count = tilemap_len tm * 6
      in \<lparr>aPosition = replicate (vertex_count * 2) 0, aTexCoord = replicate (vertex_count * 2) 0\<rparr>)"

text \<open>The four assignments of one vertex in the pyglet variant, followed by \<^verbatim>\<open>i += 2\<close>.\<close>

definition put_vertex2 ::
  "real list \<times> real list \<Rightarrow> nat \<Rightarrow> real \<Rightarrow> real \<Rightarrow> real \<Rightarrow> real
     \<Rightarrow> error + ((real list \<times> real list) \<times> nat)" where
  "put_vertex2 = (\<lambda>(position_data, texcoord_data) i px py tx ty.
     and_then (list_setitem position_data (i + 0) px) (\<lambda>position_data.
     and_then (list_setitem position_data (i + 1) py) (\<lambda>position_data.
     and_then (list_setitem texcoord_data (i + 0) tx) (\<lambda>texcoord_data.
     and_then (list_setitem texcoord_data (i + 1) ty) (\<lambda>texcoord_data.
     Inr ((position_data, texcoord_data), i + 2))))))"

definition pyglet_tile ::
  "constants \<Rightarrow> tilemap \<Rightarrow> int \<Rightarrow> int \<Rightarrow> (real list \<times> real list) \<times> nat
     \<Rightarrow> error + ((real list \<times> real list) \<times> nat)" where
  "pyglet_tile C tm x y = (\<lambda>(data, i).
     and_then (tilemap_getitem C tm (y, x)) (\<lambda>tile.
     and_then (atlas_rect C tile) (\<lambda>(tx0, ty0, tSize).
     and_then (put_vertex2 data i (real_of_int x) (real_of_int y) tx0 ty0)
       (\<lambda>(data, i).
     and_then (put_vertex2 data i (real_of_int (x + 1)) (real_of_int y) (tx0 + tSize) ty0)
       (\<lambda>(data, i).
     and_then (put_vertex2 data i (real_of_int x) (real_of_int (y + 1)) tx0 (ty0 + tSize))
       (\<lambda>(data, i).
     and_then (put_vertex2 data i (real_of_int (x + 1)) (real_of_int y) (tx0 + tSize) ty0)
       (\<lambda>(data, i).
     and_then (put_vertex2 data i (real_of_int x) (real_of_int (y + 1)) tx0 (ty0 + tSize))
       (\<lambda>(data, i).
     put_vertex2 data i (real_of_int (x + 1)) (real_of_int (y + 1))
       (tx0 + tSize) (ty0 + tSize)))))))))"

text \<open>
  \<^verbatim>\<open>Pyglet_VertexBufferedRenderer._update_vbo\<close>. The two slice assignments at its end
  replace the whole arrays; \<^verbatim>\<open>texcoord_data\<close> has the length of \<^verbatim>\<open>aPosition\<close>, and
  ctypes refuses a slice assignment of another length with a \<open>ValueError\<close>.
\<close>

definition Pyglet_update_vbo :: "constants \<Rightarrow> tilemap \<Rightarrow> vertex_list \<Rightarrow> error + vertex_list" where
  "Pyglet_update_vbo C tm vl =
     (let float_count = length (aPosition vl);
          position_data = replicate float_count 0;
          texcoord_data = replicate float_count 0
      in and_then
           (for_loop (py_range (TILEMAP_N_COLS C)) (\<lambda>x.
              for_loop (py_range (TILEMAP_N_ROWS C)) (\<lambda>y. pyglet_tile C tm x y))
              ((position_data, texcoord_data), 0))
           (\<lambda>((position_data, texcoord_data), i).
              if length texcoord_data = length (aTexCoord vl)
              then Inr (vl\<lparr>aPosition := position_data, aTexCoord := texcoord_data\<rparr>)
              else Inl ValueError))"

subsection \<open>The graphics context and the renderer object\<close>

text \<open>
  The calls of \<^verbatim>\<open>pyglet.gl\<close> that the renderers make. Object names, counts, sizes and
  offsets are naturals; the target of a buffer call is always \<^verbatim>\<open>GL_ARRAY_BUFFER\<close>, the
  target of a texture call always \<^verbatim>\<open>GL_TEXTURE_2D\<close>, and the component type of an
  attribute follows from the call, so these arguments are left out.
\<close>

datatype shader_type = GL_VERTEX_SHADER | GL_FRAGMENT_SHADER | GL_GEOMETRY_SHADER

datatype draw_mode = GL_TRIANGLES | GL_POINTS

datatype buffer_data = Floats "real list" | Uints "32 word list"

datatype gl_call =
    glCreateProgram
  | glCreateShader shader_type
  | glShaderSource nat string
  | glCompileShader nat
  | glAttachShader nat nat
  | glLinkProgram nat
  | glDetachShader nat nat
  | glDeleteShader nat
  | glGenBuffers
  | glGenVertexArrays
  | glBindBuffer nat
  | glBufferData buffer_data
  | glBindVertexArray nat
  | glEnableVertexAttribArray nat
  | glVertexAttribPointer nat nat nat nat
  | glVertexAttribIPointer nat nat nat nat
  | glBindTexture nat
  | glGetUniformLocation nat string
  | glProgramUniformMatrix4fv nat int mat4
  | glProgramUniform1i nat int int
  | glUseProgram nat
  | glDrawArrays draw_mode nat nat
  | glDeleteVertexArrays nat
  | glDeleteBuffers nat
  | glDeleteProgram nat

text \<open>
  The state that the methods of a renderer read and write: the fields of the renderer
  object, the tilemap object it refers to (shared with its owner, who may change it
  between two calls), and the graphics context. The context is described by what the
  renderers can observe of it:
  \<^item> \<open>gl_raises\<close> tells which calls raise instead of running (all of them once the
    context is gone);
  \<^item> \<open>compile_log\<close> and \<open>link_log\<close> are the verdicts of the driver on a shader source
    and on a list of attached shaders: \<open>None\<close> for success, the info log otherwise;
  \<^item> \<open>next_name\<close> is the name that the next created object gets;
  \<^item> \<open>array_buffer\<close> and \<open>vertex_array\<close> are the current bindings, \<open>buffer_store\<close> the
    data of each buffer object and \<open>vao_buffer\<close> the buffer that the attributes of a
    vertex array object read;
  \<^item> \<open>calls\<close> lists the calls that ran, oldest first, and \<open>drawn\<close> what each draw
    call read: the mode, the count and the data of the buffer behind the bound vertex
    array object.
\<close>

record state =
  tilemap :: tilemap
  texture_id :: nat
  shader_handle :: "nat option"
  vbo_handle :: "nat option"
  vao_handle :: "nat option"
  gl_raises :: "gl_call \<Rightarrow> bool"
  compile_log :: "string \<Rightarrow> shader_type \<Rightarrow> string option"
  link_log :: "(string \<times> shader_type) list \<Rightarrow> string option"
  uniform_location :: "string \<Rightarrow> int"
  next_name :: nat
  array_buffer :: nat
  vertex_array :: nat
  buffer_store :: "nat \<Rightarrow> buffer_data option"
  vao_buffer :: "nat \<Rightarrow> nat option"
  calls :: "gl_call list"
  drawn :: "(draw_mode \<times> nat \<times> buffer_data option) list"

type_synonym 'a cmd = "state \<Rightarrow> (error + 'a) \<times> state"

definition cmd_return :: "'a \<Rightarrow> 'a cmd" where
  "cmd_return v = (\<lambda>s. (Inr v, s))"

definition cmd_raise :: "error \<Rightarrow> 'a cmd" where
  "cmd_raise e = (\<lambda>s. (Inl e, s))"

definition cmd_bind :: "'a cmd \<Rightarrow> ('a \<Rightarrow> 'b cmd) \<Rightarrow> 'b cmd" where
  "cmd_bind m f = (\<lambda>s. case m s of (Inl e, s') \<Rightarrow> (Inl e, s') | (Inr v, s') \<Rightarrow> f v s')"

definition cmd_read :: "(state \<Rightarrow> 'a) \<Rightarrow> 'a cmd" where
  "cmd_read f = (\<lambda>s. (Inr (f s), s))"

definition cmd_write :: "(state \<Rightarrow> state) \<Rightarrow> unit cmd" where
  "cmd_write f = (\<lambda>s. (Inr (), f s))"

definition cmd_lift :: "(state \<Rightarrow> error + 'a) \<Rightarrow> 'a cmd" where
  "cmd_lift f = (\<lambda>s. (f s, s))"

primrec cmd_for :: "'a list \<Rightarrow> ('a \<Rightarrow> 'b \<Rightarrow> 'b cmd) \<Rightarrow> 'b \<Rightarrow> 'b cmd" where
  "cmd_for [] body v = cmd_return v"
| "cmd_for (x # xs) body v = cmd_bind (body x v) (cmd_for xs body)"

text \<open>What a call that runs does to the context, besides being recorded.\<close>

fun gl_effect :: "gl_call \<Rightarrow> state \<Rightarrow> state" where
  "gl_effect glCreateProgram s = s\<lparr>next_name := next_name s + 1\<rparr>"
| "gl_effect (glCreateShader t) s = s\<lparr>next_name := next_name s + 1\<rparr>"
| "gl_effect glGenBuffers s = s\<lparr>next_name := next_name s + 1\<rparr>"
| "gl_effect glGenVertexArrays s = s\<lparr>next_name := next_name s + 1\<rparr>"
| "gl_effect (glBindBuffer b) s = s\<lparr>array_buffer := b\<rparr>"
| "gl_effect (glBufferData d) s = s\<lparr>buffer_store := (buffer_store s)(array_buffer s := Some d)\<rparr>"
| "gl_effect (glBindVertexArray a) s = s\<lparr>vertex_array := a\<rparr>"
| "gl_effect (glVertexAttribPointer index n stride offset) s =
     s\<lparr>vao_buffer := (vao_buffer s)(vertex_array s := Some (array_buffer s))\<rparr>"
| "gl_effect (glVertexAttribIPointer index n stride offset) s =
     s\<lparr>vao_buffer := (vao_buffer s)(vertex_array s := Some (array_buffer s))\<rparr>"
| "gl_effect (glDrawArrays mode first count) s =
     s\<lparr>drawn := drawn s @
         [(mode, count,
           case vao_buffer s (vertex_array s) of None \<Rightarrow> None | Some b \<Rightarrow> buffer_store s b)]\<rparr>"
| "gl_effect (glDeleteBuffers b) s = s\<lparr>buffer_store := (buffer_store s)(b := None)\<rparr>"
| "gl_effect (glDeleteVertexArrays a) s = s\<lparr>vao_buffer := (vao_buffer s)(a := None)\<rparr>"
| "gl_effect c s = s"

definition gl :: "gl_call \<Rightarrow> unit cmd" where
  "gl c = (\<lambda>s. if gl_raises s c then (Inl GLException, s)
               else (Inr (), gl_effect c (s\<lparr>calls := calls s @ [c]\<rparr>)))"

text \<open>A call that creates an object and returns its name.\<close>

definition gl_new :: "gl_call \<Rightarrow> nat cmd" where
  "gl_new c = (\<lambda>s. case gl c s of (Inl e, s') \<Rightarrow> (Inl e, s') | (Inr u, s') \<Rightarrow> (Inr (next_name s), s'))"

text \<open>
  A handle field passed to a call: ctypes refuses \<^verbatim>\<open>None\<close> where an integer is
  expected, and \<^verbatim>\<open>ctypes.c_ulong(None)\<close> is a \<open>TypeError\<close>.
\<close>

definition handle_arg :: "(state \<Rightarrow> nat option) \<Rightarrow> nat cmd" where
  "handle_arg field = (\<lambda>s. case field s of None \<Rightarrow> (Inl ArgumentError, s) | Some h \<Rightarrow> (Inr h, s))"

definition c_ulong :: "(state \<Rightarrow> nat option) \<Rightarrow> nat cmd" where
  "c_ulong field = (\<lambda>s. case field s of None \<Rightarrow> (Inl TypeError, s) | Some h \<Rightarrow> (Inr h, s))"

subsection \<open>\<^verbatim>\<open>_OpenGLRenderer\<close> and its two subclasses\<close>

datatype renderer = VertexBufferedRenderer | GeomBufferedRenderer

text \<open>
  The texts of the shader files, which are not among the sources read. For the point
  renderer \<open>geom_source\<close> is the text after the three replacements of
  \<^verbatim>\<open>GeomBufferedRenderer._create_shader\<close>, whose formatting of floats is not modelled.
\<close>

record shader_files =
  vert_source :: string
  frag_source :: string
  geom_source :: string

text \<open>
  One round of the loop of \<^verbatim>\<open>_compile_shader_program\<close>. The two queries after the
  compilation, for the status and for the info log, are the reading of \<open>compile_log\<close>.
\<close>

definition compile_stage :: "nat \<Rightarrow> string \<times> shader_type \<Rightarrow> nat list \<Rightarrow> nat list cmd" where
  "compile_stage program = (\<lambda>(source, shader_type) handles.
     cmd_bind (gl_new (glCreateShader shader_type)) (\<lambda>handle.
     cmd_bind (gl (glShaderSource handle source)) (\<lambda>_.
     cmd_bind (gl (glCompileShader handle)) (\<lambda>_.
     cmd_bind (cmd_read (\<lambda>s. compile_log s source shader_type)) (\<lambda>log.
     case log of
       Some text \<Rightarrow> cmd_raise (RuntimeError text)
     | None \<Rightarrow>
         cmd_bind (gl (glAttachShader program handle)) (\<lambda>_.
         cmd_return (handles @ [handle])))))))"

text \<open>\<^verbatim>\<open>_OpenGLRenderer._compile_shader_program\<close>.\<close>

definition compile_shader_program :: "(string \<times> shader_type) list \<Rightarrow> unit cmd" where
  "compile_shader_program sources_and_shadertypes =
     cmd_bind (gl_new glCreateProgram) (\<lambda>program.
     cmd_bind (cmd_write (\<lambda>s. s\<lparr>shader_handle := Some program\<rparr>)) (\<lambda>_.
     cmd_bind (cmd_for sources_and_shadertypes (compile_stage program) []) (\<lambda>handles.
     cmd_bind (gl (glLinkProgram program)) (\<lambda>_.
     cmd_bind (cmd_read (\<lambda>s. link_log s sources_and_shadertypes)) (\<lambda>log.
     case log of
       Some text \<Rightarrow> cmd_raise (RuntimeError text)
     | None \<Rightarrow>
         cmd_for handles (\<lambda>handle _.
           cmd_bind (gl (glDetachShader program handle)) (\<lambda>_.
           gl (glDeleteShader handle))) ())))))"

text \<open>The two \<^verbatim>\<open>_create_shader\<close> methods.\<close>

fun shader_sources :: "renderer \<Rightarrow> shader_files \<Rightarrow> (string \<times> shader_type) list" where
  "shader_sources VertexBufferedRenderer files =
     [(vert_source files, GL_VERTEX_SHADER), (frag_source files, GL_FRAGMENT_SHADER)]"
| "shader_sources GeomBufferedRenderer files =
     [(vert_source files, GL_VERTEX_SHADER), (frag_source files, GL_FRAGMENT_SHADER),
      (geom_source files, GL_GEOMETRY_SHADER)]"

definition create_shader :: "renderer \<Rightarrow> shader_files \<Rightarrow> unit cmd" where
  "create_shader r files = compile_shader_program (shader_sources r files)"

text \<open>\<^verbatim>\<open>_OpenGLRenderer._allocate_vbo_vao\<close>.\<close>

definition allocate_vbo_vao :: "unit cmd" where
  "allocate_vbo_vao =
     cmd_bind (gl_new glGenBuffers) (\<lambda>buffer_id.
     cmd_bind (cmd_write (\<lambda>s. s\<lparr>vbo_handle := Some buffer_id\<rparr>)) (\<lambda>_.
     cmd_bind (gl_new glGenVertexArrays) (\<lambda>array_id.
     cmd_write (\<lambda>s. s\<lparr>vao_handle := Some array_id\<rparr>))))"

text \<open>The two \<^verbatim>\<open>_update_vbo\<close> methods.\<close>

fun update_vbo :: "constants \<Rightarrow> renderer \<Rightarrow> unit cmd" where
  "update_vbo C VertexBufferedRenderer =
     cmd_bind (handle_arg vbo_handle) (\<lambda>vbo.
     cmd_bind (gl (glBindBuffer vbo)) (\<lambda>_.
     cmd_bind (cmd_lift (\<lambda>s. VertexBufferedRenderer_vertex_data C (tilemap s))) (\<lambda>vertex_data.
     gl (glBufferData (Floats vertex_data)))))"
| "update_vbo C GeomBufferedRenderer =
     cmd_bind (handle_arg vbo_handle) (\<lambda>vbo.
     cmd_bind (gl (glBindBuffer vbo)) (\<lambda>_.
     cmd_bind (cmd_read (\<lambda>s. GeomBufferedRenderer_vertex_data (tilemap s))) (\<lambda>vertex_data.
     gl (glBufferData (Uints vertex_data)))))"

text \<open>
  The two \<^verbatim>\<open>_update_vao\<close> methods; a float and an unsigned integer have four bytes.
\<close>

fun update_vao :: "renderer \<Rightarrow> unit cmd" where
  "update_vao VertexBufferedRenderer =
     cmd_bind (handle_arg vao_handle) (\<lambda>vao.
     cmd_bind (gl (glBindVertexArray vao)) (\<lambda>_.
     cmd_bind (handle_arg vbo_handle) (\<lambda>vbo.
     cmd_bind (gl (glBindBuffer vbo)) (\<lambda>_.
     cmd_bind (gl (glEnableVertexAttribArray 0)) (\<lambda>_.
     cmd_bind (gl (glVertexAttribPointer 0 2 (4 * (2 + 2)) 0)) (\<lambda>_.
     cmd_bind (gl (glEnableVertexAttribArray 1)) (\<lambda>_.
     gl (glVertexAttribPointer 1 2 (4 * (2 + 2)) (4 * 2)))))))))"
| "update_vao GeomBufferedRenderer =
     cmd_bind (handle_arg vao_handle) (\<lambda>vao.
     cmd_bind (gl (glBindVertexArray vao)) (\<lambda>_.
     cmd_bind (handle_arg vbo_handle) (\<lambda>vbo.
     cmd_bind (gl (glBindBuffer vbo)) (\<lambda>_.
     cmd_bind (gl (glEnableVertexAttribArray 0)) (\<lambda>_.
     gl (glVertexAttribIPointer 0 1 4 0))))))"

text \<open>\<^verbatim>\<open>_OpenGLRenderer.recalculate\<close>.\<close>

definition recalculate :: "constants \<Rightarrow> renderer \<Rightarrow> unit cmd" where
  "recalculate C r = cmd_bind (update_vbo C r) (\<lambda>_. update_vao r)"

text \<open>
  \<^verbatim>\<open>_OpenGLRenderer.__init__\<close>, on the tilemap that the state holds. An exception of
  any step ends the construction, and no renderer object is returned.
\<close>

definition OpenGLRenderer_init :: "constants \<Rightarrow> renderer \<Rightarrow> shader_files \<Rightarrow> unit cmd" where
  "OpenGLRenderer_init C r files =
     cmd_bind (cmd_write (\<lambda>s. s\<lparr>texture_id := texture (tilemap s),
                                  shader_handle := None, vbo_handle := None, vao_handle := None\<rparr>))
       (\<lambda>_.
     cmd_bind (create_shader r files) (\<lambda>_.
     cmd_bind allocate_vbo_vao (\<lambda>_.
     recalculate C r)))"

text \<open>
  \<^verbatim>\<open>_OpenGLRenderer._prepare_params_to_set_uniform\<close>: the location of the uniform. The
  conversion of the values to a ctypes array or scalar changes no value in this model,
  so the values are passed on by the caller.
\<close>

definition prepare_params_to_set_uniform :: "string \<Rightarrow> int cmd" where
  "prepare_params_to_set_uniform name =
     cmd_bind (handle_arg shader_handle) (\<lambda>program.
     cmd_bind (gl (glGetUniformLocation program name)) (\<lambda>_.
     cmd_read (\<lambda>s. uniform_location s name)))"

text \<open>The two \<^verbatim>\<open>draw\<close> methods.\<close>

fun draw :: "constants \<Rightarrow> renderer \<Rightarrow> unit cmd" where
  "draw C VertexBufferedRenderer =
     cmd_bind (cmd_read texture_id) (\<lambda>texture.
     cmd_bind (gl (glBindTexture texture)) (\<lambda>_.
     cmd_bind (handle_arg vao_handle) (\<lambda>vao.
     cmd_bind (gl (glBindVertexArray vao)) (\<lambda>_.
     cmd_bind (cmd_lift (\<lambda>s. get_projection_matrix C)) (\<lambda>projection.
     cmd_bind (prepare_params_to_set_uniform ''projection'') (\<lambda>location.
     cmd_bind (handle_arg shader_handle) (\<lambda>program.
     cmd_bind (gl (glProgramUniformMatrix4fv program location projection)) (\<lambda>_.
     cmd_bind (gl (glUseProgram program)) (\<lambda>_.
     cmd_bind (cmd_read (\<lambda>s. tilemap_len (tilemap s))) (\<lambda>n_tiles.
     let n_vertices_per_tile = 6
     in gl (glDrawArrays GL_TRIANGLES 0 (n_tiles * n_vertices_per_tile))))))))))))"
| "draw C GeomBufferedRenderer =
     cmd_bind (cmd_read texture_id) (\<lambda>texture.
     cmd_bind (gl (glBindTexture texture)) (\<lambda>_.
     cmd_bind (handle_arg vao_handle) (\<lambda>vao.
     cmd_bind (gl (glBindVertexArray vao)) (\<lambda>_.
     cmd_bind (cmd_lift (\<lambda>s. get_projection_matrix C)) (\<lambda>projection.
     cmd_bind (prepare_params_to_set_uniform ''projection'') (\<lambda>location.
     cmd_bind (handle_arg shader_handle) (\<lambda>program.
     cmd_bind (gl (glProgramUniformMatrix4fv program location projection)) (\<lambda>_.
     cmd_bind (prepare_params_to_set_uniform ''n_cols'') (\<lambda>location.
     cmd_bind (gl (glProgramUniform1i program location (TILEMAP_N_COLS C))) (\<lambda>_.
     cmd_bind (gl (glUseProgram program)) (\<lambda>_.
     cmd_bind (cmd_read (\<lambda>s. tilemap_len (tilemap s))) (\<lambda>n_tiles.
     gl (glDrawArrays GL_POINTS 0 n_tiles)))))))))))))"

text \<open>
  \<^verbatim>\<open>_OpenGLRenderer.__del__\<close>: the three deletions inside \<^verbatim>\<open>try\<close>, and the bare
  \<^verbatim>\<open>except: pass\<close> that ends every exception of the body.
\<close>

definition del_body :: "unit cmd" where
  "del_body =
     cmd_bind (c_ulong vao_handle) (\<lambda>vao.
     cmd_bind (gl (glDeleteVertexArrays vao)) (\<lambda>_.
     cmd_bind (c_ulong vbo_handle) (\<lambda>vbo.
     cmd_bind (gl (glDeleteBuffers vbo)) (\<lambda>_.
     cmd_bind (handle_arg shader_handle) (\<lambda>program.
     gl (glDeleteProgram program))))))"

definition try_except_pass :: "unit cmd \<Rightarrow> unit cmd" where
  "try_except_pass body = (\<lambda>s. case body s of (Inl e, s') \<Rightarrow> (Inr (), s') | (Inr u, s') \<Rightarrow> (Inr (), s'))"

definition OpenGLRenderer_del :: "unit cmd" where
  "OpenGLRenderer_del = try_except_pass del_body"

text \<open>\<^verbatim>\<open>Pyglet_VertexBufferedRenderer.recalculate\<close>.\<close>

definition Pyglet_recalculate :: "constants \<Rightarrow> tilemap \<Rightarrow> vertex_list \<Rightarrow> error + vertex_list" where
  "Pyglet_recalculate C tm vl = Pyglet_update_vbo C tm vl"

subsection \<open>The layout in the words of the specification\<close>

text \<open>
  The definitions of this subsection follow the specification, not the code; the
  theorems compare them with the functions above. A tilemap fits the constants when its
  backing buffer has \<open>rows * cols\<close> entries.
\<close>

definition tilemap_fits :: "constants \<Rightarrow> tilemap \<Rightarrow> bool" where
  "tilemap_fits C tm \<longleftrightarrow>
     length (map_tm tm) = nat (TILEMAP_N_ROWS C) * nat (TILEMAP_N_COLS C)"

text \<open>The atlas rectangle of a tile index, as the specification writes it.\<close>

definition rect_of :: "constants \<Rightarrow> int \<Rightarrow> real \<times> real \<times> real" where
  "rect_of C t =
     (real_of_int (t mod TEXTURE_N_TILES_PER_ROW C) * TEXTURE_TILE_SIZE_NORMALIZED C
        + TEXTURE_TILE_PADDING C,
      real_of_int (t div TEXTURE_N_TILES_PER_ROW C) * TEXTURE_TILE_SIZE_NORMALIZED C
        + TEXTURE_TILE_PADDING C,
      TEXTURE_TILE_SIZE_NORMALIZED C - 2 * TEXTURE_TILE_PADDING C)"

text \<open>The tile of the grid cell in column \<open>x\<close> of row \<open>y\<close> of the row-major buffer.\<close>

definition cell :: "constants \<Rightarrow> tilemap \<Rightarrow> int \<Rightarrow> int \<Rightarrow> int" where
  "cell C tm x y = map_tm tm ! nat (y * TILEMAP_N_COLS C + x)"

text \<open>
  The six vertices of a tile as 24 floats: top-left, top-right, bottom-left, top-right,
  bottom-left, bottom-right, each with its position and then its texture coordinate.
\<close>

definition quad_floats :: "int \<Rightarrow> int \<Rightarrow> real \<times> real \<times> real \<Rightarrow> real list" where
  "quad_floats x y = (\<lambda>(tx0, ty0, tSize).
     [real_of_int x, real_of_int y, tx0, ty0,
      real_of_int x + 1, real_of_int y, tx0 + tSize, ty0,
      real_of_int x, real_of_int y + 1, tx0, ty0 + tSize,
      real_of_int x + 1, real_of_int y, tx0 + tSize, ty0,
      real_of_int x, real_of_int y + 1, tx0, ty0 + tSize,
      real_of_int x + 1, real_of_int y + 1, tx0 + tSize, ty0 + tSize])"

text \<open>The same six vertices as pairs of a position and a texture coordinate.\<close>

definition quad_vertices :: "int \<Rightarrow> int \<Rightarrow> real \<times> real \<times> real \<Rightarrow> ((real \<times> real) \<times> (real \<times> real)) list" where
  "quad_vertices x y = (\<lambda>(tx0, ty0, tSize).
     [((real_of_int x, real_of_int y), (tx0, ty0)),
      ((real_of_int x + 1, real_of_int y), (tx0 + tSize, ty0)),
      ((real_of_int x, real_of_int y + 1), (tx0, ty0 + tSize)),
      ((real_of_int x + 1, real_of_int y), (tx0 + tSize, ty0)),
      ((real_of_int x, real_of_int y + 1), (tx0, ty0 + tSize)),
      ((real_of_int x + 1, real_of_int y + 1), (tx0 + tSize, ty0 + tSize))])"

text \<open>The grid cells in the order of the two loops: columns outside, rows inside.\<close>

definition loop_cells :: "constants \<Rightarrow> (int \<times> int) list" where
  "loop_cells C = List.product (py_range (TILEMAP_N_COLS C)) (py_range (TILEMAP_N_ROWS C))"

definition expected_vertex_data :: "constants \<Rightarrow> tilemap \<Rightarrow> real list" where
  "expected_vertex_data C tm =
     concat (map (\<lambda>(x, y). quad_floats x y (rect_of C (cell C tm x y))) (loop_cells C))"

text \<open>
  A float buffer read as the vertex array object declares it in \<^verbatim>\<open>_update_vao\<close>: a
  stride of four floats, the position at offset 0 and the texture coordinate at offset 2.
\<close>

fun vertices :: "real list \<Rightarrow> ((real \<times> real) \<times> (real \<times> real)) list" where
  "vertices (px # py # tx # ty # rest) = ((px, py), (tx, ty)) # vertices rest"
| "vertices rest = []"

text \<open>
  Writing a block of consecutive entries at a counter, which is what a run of indexed
  assignments followed by the increment of the counter amounts to.
\<close>

definition put_block :: "'a list \<Rightarrow> nat \<Rightarrow> 'a list \<Rightarrow> error + ('a list \<times> nat)" where
  "put_block vd i blk =
     (if i + length blk \<le> length vd
      then Inr (take i vd @ blk @ drop (i + length blk) vd, i + length blk)
      else Inl IndexError)"

text \<open>
  The position array and the texture coordinate array of a vertex list, read vertex by
  vertex: two floats of the one, then two floats of the other.
\<close>

fun interleave :: "real list \<Rightarrow> real list \<Rightarrow> real list" where
  "interleave (a # b # ps) (c # d # ts) = a # b # c # d # interleave ps ts"
| "interleave ps ts = []"

text \<open>The six positions and the six texture coordinates of a tile, as 12 floats each.\<close>

definition quad_positions :: "int \<Rightarrow> int \<Rightarrow> real list" where
  "quad_positions x y =
     [real_of_int x, real_of_int y, real_of_int x + 1, real_of_int y,
      real_of_int x, real_of_int y + 1, real_of_int x + 1, real_of_int y,
      real_of_int x, real_of_int y + 1, real_of_int x + 1, real_of_int y + 1]"

definition quad_texcoords :: "real \<times> real \<times> real \<Rightarrow> real list" where
  "quad_texcoords = (\<lambda>(tx0, ty0, tSize).
     [tx0, ty0, tx0 + tSize, ty0, tx0, ty0 + tSize,
      tx0 + tSize, ty0, tx0, ty0 + tSize, tx0 + tSize, ty0 + tSize])"

text \<open>Writing a block into each of two arrays at the same counter.\<close>

definition put_block2 ::
  "'a list \<times> 'a list \<Rightarrow> nat \<Rightarrow> 'a list \<times> 'a list \<Rightarrow> error + (('a list \<times> 'a list) \<times> nat)" where
  "put_block2 = (\<lambda>(pd, td) j (bp, bt).
     if j + length bp \<le> length pd \<and> j + length bt \<le> length td
     then Inr ((take j pd @ bp @ drop (j + length bp) pd,
                take j td @ bt @ drop (j + length bt) td), j + length bp)
     else Inl IndexError)"

text \<open>
  The loop variables of the per-vertex builder and of the pyglet builder describe the
  same vertices when the one buffer is the interleaving of the two arrays of length \<open>n\<close>
  and the one counter is twice the other.
\<close>

definition same_layout ::
  "nat \<Rightarrow> real list \<times> nat \<Rightarrow> (real list \<times> real list) \<times> nat \<Rightarrow> bool" where
  "same_layout n = (\<lambda>(vd, i) ((pd, td), j).
     vd = interleave pd td \<and> i = 2 * j \<and> length pd = n \<and> length td = n
     \<and> even n \<and> even j)"

text \<open>
  Modelled from the spec: the geometry stage of the point renderer, whose shader sources
  are not among the sources read. The spec says that it receives the tile index, the
  number of grid columns and the atlas constants, and that it builds for each point the
  quad of six vertices that the per-vertex mode builds. The grid cell of a point is read
  here from its place in the uploaded buffer, row-major with \<open>n_cols\<close> points in a row,
  and the tile index is the unsigned value of the uploaded 32-bit word.
\<close>

definition geometry_stage :: "constants \<Rightarrow> int \<Rightarrow> nat \<Rightarrow> 32 word \<Rightarrow> real list" where
  "geometry_stage C n_cols vertex_id tile =
     quad_floats (int vertex_id mod n_cols) (int vertex_id div n_cols) (rect_of C (uint tile))"

text \<open>
  Modelled from the spec: the geometry stage applied to every point of a point-list draw
  over the uploaded buffer, with the uniform \<^verbatim>\<open>n_cols\<close> that \<^verbatim>\<open>GeomBufferedRenderer.draw\<close>
  sets to \<open>TILEMAP_N_COLS\<close>.
\<close>

definition geometry_expand :: "constants \<Rightarrow> 32 word list \<Rightarrow> real list list" where
  "geometry_expand C points =
     map (\<lambda>vertex_id. geometry_stage C (TILEMAP_N_COLS C) vertex_id (points ! vertex_id))
         [0..<length points]"

text \<open>The quads of a float buffer: its consecutive blocks of 24 floats.\<close>

definition quads_of :: "real list \<Rightarrow> real list list" where
  "quads_of vd = map (\<lambda>k. take 24 (drop (k * 24) vd)) [0..<length vd div 24]"

text \<open>Every tile index of the tilemap is a value of an unsigned 32-bit integer.\<close>

definition tiles_are_uint32 :: "tilemap \<Rightarrow> bool" where
  "tiles_are_uint32 tm = list_all (\<lambda>t. 0 \<le> t \<and> t < 2 ^ 32) (map_tm tm)"

text \<open>A three by three tilemap and constants of an atlas with eight tiles in a row.\<close>

definition C33 :: constants where
  "C33 = \<lparr>TEXTURE_TILE_SIZE_PX = 16, TEXTURE_N_TILES_PER_ROW = 8,
           TEXTURE_TILE_SIZE_NORMALIZED = 1 / 8, TEXTURE_TILE_PADDING = 1 / 1024,
           TILEMAP_N_ROWS = 3, TILEMAP_N_COLS = 3\<rparr>"

definition tm33 :: tilemap where
  "tm33 = \<lparr>map_tm = [0, 1, 2, 7, 8, 9, 63, 64, 1000], texture = 1\<rparr>"

text \<open>
  A tile index is safe for the atlas arithmetic when its column number and its row
  number in the atlas can be converted to floats.
\<close>

definition float_safe :: "constants \<Rightarrow> int \<Rightarrow> bool" where
  "float_safe C t \<longleftrightarrow>
     \<bar>t mod TEXTURE_N_TILES_PER_ROW C\<bar> < 2 ^ 1024 - 2 ^ 970
     \<and> \<bar>t div TEXTURE_N_TILES_PER_ROW C\<bar> < 2 ^ 1024 - 2 ^ 970"

text \<open>
  A grid of one tile with the constants of the atlas above, and a tilemap whose one
  tile index is \<open>10 ^ 400\<close>.
\<close>

definition C11 :: constants where
  "C11 = \<lparr>TEXTURE_TILE_SIZE_PX = 16, TEXTURE_N_TILES_PER_ROW = 8,
           TEXTURE_TILE_SIZE_NORMALIZED = 1 / 8, TEXTURE_TILE_PADDING = 1 / 1024,
           TILEMAP_N_ROWS = 1, TILEMAP_N_COLS = 1\<rparr>"

definition tm_huge :: tilemap where
  "tm_huge = \<lparr>map_tm = [10 ^ 400], texture = 1\<rparr>"

text \<open>Constants of a grid with one column and two rows.\<close>

definition C12 :: constants where
  "C12 = \<lparr>TEXTURE_TILE_SIZE_PX = 16, TEXTURE_N_TILES_PER_ROW = 4,
           TEXTURE_TILE_SIZE_NORMALIZED = 1 / 4, TEXTURE_TILE_PADDING = 0,
           TILEMAP_N_ROWS = 2, TILEMAP_N_COLS = 1\<rparr>"

subsection \<open>Notions used to state what the methods do to the state\<close>

text \<open>A command leaves a field of the state as it found it, whatever the outcome.\<close>

definition preserves :: "(state \<Rightarrow> 'x) \<Rightarrow> 'a cmd \<Rightarrow> bool" where
  "preserves field m \<longleftrightarrow> (\<forall>s. field (snd (m s)) = field s)"

text \<open>The calls that build a shader program.\<close>

fun is_shader_call :: "gl_call \<Rightarrow> bool" where
  "is_shader_call glCreateProgram = True"
| "is_shader_call (glCreateShader t) = True"
| "is_shader_call (glShaderSource h source) = True"
| "is_shader_call (glCompileShader h) = True"
| "is_shader_call (glAttachShader p h) = True"
| "is_shader_call (glLinkProgram p) = True"
| "is_shader_call (glDetachShader p h) = True"
| "is_shader_call (glDeleteShader h) = True"
| "is_shader_call c = False"

text \<open>A command adds to the recorded calls only calls that satisfy a predicate.\<close>

definition only_calls :: "(gl_call \<Rightarrow> bool) \<Rightarrow> 'a cmd \<Rightarrow> bool" where
  "only_calls P m \<longleftrightarrow> (\<forall>s. \<exists>new. calls (snd (m s)) = calls s @ new \<and> list_all P new)"

text \<open>The driver compiles a shader source without complaint.\<close>

definition compiles :: "state \<Rightarrow> string \<times> shader_type \<Rightarrow> bool" where
  "compiles s = (\<lambda>(source, shader_type). compile_log s source shader_type = None)"

text \<open>Two states with the same driver: the same calls raise, the same sources fail.\<close>

definition same_driver :: "state \<Rightarrow> state \<Rightarrow> bool" where
  "same_driver s s' \<longleftrightarrow>
     gl_raises s' = gl_raises s \<and> compile_log s' = compile_log s \<and> link_log s' = link_log s"

text \<open>
  A renderer after a successful construction in a live context: no call raises, and
  the three handles are the names \<open>p\<close>, \<open>b\<close> and \<open>a\<close> of its program, its buffer and
  its vertex array object.
\<close>

definition ready :: "state \<Rightarrow> nat \<Rightarrow> nat \<Rightarrow> nat \<Rightarrow> bool" where
  "ready s p b a \<longleftrightarrow>
     (\<forall>c. \<not> gl_raises s c) \<and> shader_handle s = Some p \<and> vbo_handle s = Some b
     \<and> vao_handle s = Some a"



text \<open>
  States and shader files for the examples: a renderer that is ready on the three by
  three tilemap, the same with a context that is gone, the same with a driver that
  rejects every fragment shader, and a second tilemap of the same size.
\<close>

definition ready33 :: state where
  "ready33 = \<lparr>tilemap = tm33, texture_id = 1, shader_handle = Some 1, vbo_handle = Some 4,
     vao_handle = Some 5, gl_raises = (\<lambda>c. False), compile_log = (\<lambda>source t. None),
     link_log = (\<lambda>attached. None), uniform_location = (\<lambda>name. 0), next_name = 6,
     array_buffer = 4, vertex_array = 5, buffer_store = (\<lambda>b. None), vao_buffer = (\<lambda>a. None),
     calls = [], drawn = []\<rparr>"

definition gone :: state where
  "gone = \<lparr>tilemap = tm33, texture_id = 1, shader_handle = Some 1, vbo_handle = Some 4,
     vao_handle = Some 5, gl_raises = (\<lambda>c. True), compile_log = (\<lambda>source t. None),
     link_log = (\<lambda>attached. None), uniform_location = (\<lambda>name. 0), next_name = 6,
     array_buffer = 4, vertex_array = 5, buffer_store = (\<lambda>b. None), vao_buffer = (\<lambda>a. None),
     calls = [], drawn = []\<rparr>"

definition files33 :: shader_files where
  "files33 = \<lparr>vert_source = ''void main() {}'', frag_source = ''void main() { int x = ; }'',
               geom_source = ''void main() {}''\<rparr>"

definition broken33 :: state where
  "broken33 = ready33\<lparr>compile_log :=
     (\<lambda>source t. if t = GL_FRAGMENT_SHADER then Some ''0:1: syntax error'' else None)\<rparr>"


section \<open>Properties\<close>

subsection \<open>Atlas rectangle\<close>

lemma atlas_rect_value:
  "TEXTURE_N_TILES_PER_ROW C \<noteq> 0 \<Longrightarrow>
   atlas_rect C t =
     Inr (real_of_int (t mod TEXTURE_N_TILES_PER_ROW C) * TEXTURE_TILE_SIZE_NORMALIZED C
            + TEXTURE_TILE_PADDING C,
          real_of_int (t div TEXTURE_N_TILES_PER_ROW C) * TEXTURE_TILE_SIZE_NORMALIZED C
            + TEXTURE_TILE_PADDING C,
          TEXTURE_TILE_SIZE_NORMALIZED C - TEXTURE_TILE_PADDING C * 2)"
  by (simp add: atlas_rect_def and_then_def py_mod_def py_floordiv_def)

lemma atlas_rect_zero_divisor:
  "TEXTURE_N_TILES_PER_ROW C = 0 \<Longrightarrow> atlas_rect C t = Inl ZeroDivisionError"
  by (simp add: atlas_rect_def and_then_def py_mod_def)



subsection \<open>Projection matrix\<close>

lemma get_projection_matrix_value:
  assumes "TILEMAP_N_COLS C \<noteq> 0" and "TILEMAP_N_ROWS C \<noteq> 0"
  shows "get_projection_matrix C =
           Inr (matmul (matmul (from_scale (2 / real_of_int (TILEMAP_N_COLS C),
                                            2 / real_of_int (TILEMAP_N_ROWS C), 0)) Mat4)
                       (from_translation (- real_of_int (TILEMAP_N_COLS C) / 2,
                                          - real_of_int (TILEMAP_N_ROWS C) / 2, 0)))"
  using assms by (simp add: get_projection_matrix_def and_then_def py_truediv_def)

lemma projection_entries:
  "matmul (matmul (from_scale (sx, sy, sz)) Mat4) (from_translation (tx, ty, tz)) =
     [sx, 0, 0, 0,
      0, sy, 0, 0,
      0, 0, sz, 0,
      sx * tx, sy * ty, sz * tz, 1]"
  by (simp add: matmul_def Mat4_def mat_row_def mat_col_def dot_def)

text \<open>
  Claim C2. For positive \<open>cols\<close> and \<open>rows\<close>, the matrix returned by
  \<^verbatim>\<open>_get_projection_matrix\<close> is \<open>Projection * View * Model\<close>, with \<open>Model\<close> the
  translation by \<open>(-cols/2, -rows/2, 0)\<close>, \<open>View\<close> the identity and \<open>Projection\<close> the
  scale by \<open>(2/cols, 2/rows, 0)\<close>; it sends the tilemap corner \<open>(0, 0)\<close> to the clip-space
  point \<open>(-1, -1)\<close> and the corner \<open>(cols, rows)\<close> to \<open>(1, 1)\<close>.
\<close>

theorem projection_matrix_corners:
  assumes "0 < TILEMAP_N_COLS C" and "0 < TILEMAP_N_ROWS C"
  shows "\<exists>m. get_projection_matrix C = Inr m
           \<and> m = matmul (matmul (from_scale (2 / real_of_int (TILEMAP_N_COLS C),
                                             2 / real_of_int (TILEMAP_N_ROWS C), 0)) Mat4)
                        (from_translation (- real_of_int (TILEMAP_N_COLS C) / 2,
                                           - real_of_int (TILEMAP_N_ROWS C) / 2, 0))
           \<and> clip_xy (mat_apply m (0, 0, 0, 1)) = (-1, -1)
           \<and> clip_xy (mat_apply m (real_of_int (TILEMAP_N_COLS C),
                                   real_of_int (TILEMAP_N_ROWS C), 0, 1)) = (1, 1)"
proof -
  let ?c = "real_of_int (TILEMAP_N_COLS C)" and ?r = "real_of_int (TILEMAP_N_ROWS C)"
  let ?m = "matmul (matmul (from_scale (2 / ?c, 2 / ?r, 0)) Mat4)
                   (from_translation (- ?c / 2, - ?r / 2, 0))"
  from assms have nz: "TILEMAP_N_COLS C \<noteq> 0" "TILEMAP_N_ROWS C \<noteq> 0" by simp_all
  have val: "get_projection_matrix C = Inr ?m"
    using nz by (rule get_projection_matrix_value)
  have entries: "?m = [2 / ?c, 0, 0, 0, 0, 2 / ?r, 0, 0, 0, 0, 0, 0,
                       2 / ?c * (- ?c / 2), 2 / ?r * (- ?r / 2), 0 * 0, 1]"
    by (rule projection_entries)
  have origin: "clip_xy (mat_apply ?m (0, 0, 0, 1)) = (-1, -1)"
    unfolding entries using nz by (simp add: mat_row_def dot_def)
  have far: "clip_xy (mat_apply ?m (?c, ?r, 0, 1)) = (1, 1)"
    unfolding entries using nz by (simp add: mat_row_def dot_def)
  from val origin far show ?thesis by blast
qed

theorem projection_matrix_corners_witness:
  "get_projection_matrix \<lparr>TEXTURE_TILE_SIZE_PX = 16, TEXTURE_N_TILES_PER_ROW = 8,
      TEXTURE_TILE_SIZE_NORMALIZED = 1 / 8, TEXTURE_TILE_PADDING = 1 / 1024,
      TILEMAP_N_ROWS = 3, TILEMAP_N_COLS = 4\<rparr>
   = Inr [1 / 2, 0, 0, 0,
          0, 2 / 3, 0, 0,
          0, 0, 0, 0,
          -1, -1, 0, 1]"
  using projection_matrix_corners [of "\<lparr>TEXTURE_TILE_SIZE_PX = 16, TEXTURE_N_TILES_PER_ROW = 8,
      TEXTURE_TILE_SIZE_NORMALIZED = 1 / 8, TEXTURE_TILE_PADDING = 1 / 1024,
      TILEMAP_N_ROWS = 3, TILEMAP_N_COLS = 4\<rparr>"]
  by (simp add: matmul_def Mat4_def mat_row_def mat_col_def dot_def)

subsection \<open>The vertex buffer of the per-vertex renderer\<close>

lemma and_then_Inr [simp]: "and_then (Inr v) f = f v"
  by (simp add: and_then_def)

lemma and_then_Inl [simp]: "and_then (Inl e) f = Inl e"
  by (simp add: and_then_def)

lemma put_vertex_eq:
  "put_vertex vd i a b c d =
     (if i + 4 \<le> length vd then Inr (take i vd @ [a, b, c, d] @ drop (i + 4) vd, i + 4)
      else Inl IndexError)"
proof (cases "i + 4 \<le> length vd")
  case True
  have "vd[i := a, i + 1 := b, i + 2 := c, i + 3 := d] = take i vd @ [a, b, c, d] @ drop (i + 4) vd"
    using True by (intro nth_equalityI) (auto simp: nth_append nth_list_update nth_Cons')
  with True show ?thesis
    by (simp add: put_vertex_def list_setitem_def)
next
  case False
  then show ?thesis
    by (simp add: put_vertex_def list_setitem_def)
qed

lemma put_vertex_block: "put_vertex vd i a b c d = put_block vd i [a, b, c, d]"
  by (simp add: put_vertex_eq put_block_def eval_nat_numeral)

lemma put_block_empty: "put_block vd i [] = (if i \<le> length vd then Inr (vd, i) else Inl IndexError)"
  by (simp add: put_block_def)

lemma put_block_seq:
  "and_then (put_block vd i b1) (\<lambda>(vd', i'). put_block vd' i' b2) = put_block vd i (b1 @ b2)"
  by (auto simp: put_block_def ac_simps)

lemma put_block_then:
  "and_then (put_block vd i b1) (\<lambda>(vd', i'). and_then (put_block vd' i' b2) f)
     = and_then (put_block vd i (b1 @ b2)) f"
  by (auto simp: put_block_def ac_simps)

lemma vertex_tile_eq:
  "vertex_tile C tm x y (vd, i) =
     and_then (tilemap_getitem C tm (y, x)) (\<lambda>tile.
     and_then (atlas_rect C tile) (\<lambda>rect. put_block vd i (quad_floats x y rect)))"
proof -
  have "vertex_tile C tm x y (vd, i) =
     and_then (tilemap_getitem C tm (y, x)) (\<lambda>tile.
     and_then (atlas_rect C tile) (\<lambda>(tx0, ty0, tSize). put_block vd i
       [real_of_int x, real_of_int y, tx0, ty0,
        real_of_int x + 1, real_of_int y, tx0 + tSize, ty0,
        real_of_int x, real_of_int y + 1, tx0, ty0 + tSize,
        real_of_int x + 1, real_of_int y, tx0 + tSize, ty0,
        real_of_int x, real_of_int y + 1, tx0, ty0 + tSize,
        real_of_int x + 1, real_of_int y + 1, tx0 + tSize, ty0 + tSize]))"
    unfolding vertex_tile_def
    by (simp add: put_vertex_block put_block_then put_block_seq)
  also have "\<dots> = and_then (tilemap_getitem C tm (y, x)) (\<lambda>tile.
     and_then (atlas_rect C tile) (\<lambda>rect. put_block vd i (quad_floats x y rect)))"
    by (simp add: quad_floats_def split_def)
  finally show ?thesis .
qed

lemma for_loop_blocks:
  assumes "\<And>p vd i. p \<in> set ps \<Longrightarrow> i \<le> length vd \<Longrightarrow> body p (vd, i) = put_block vd i (blk p)"
  shows "i \<le> length vd \<Longrightarrow> for_loop ps body (vd, i) = put_block vd i (concat (map blk ps))"
  using assms
proof (induction ps arbitrary: vd i)
  case Nil
  then show ?case by (simp add: put_block_empty)
next
  case (Cons p ps)
  have step: "body p (vd, i) = put_block vd i (blk p)"
    using Cons.prems by simp
  have rest: "\<And>vd' i'. i' \<le> length vd' \<Longrightarrow>
      for_loop ps body (vd', i') = put_block vd' i' (concat (map blk ps))"
    using Cons.IH Cons.prems by simp
  have "for_loop (p # ps) body (vd, i)
        = and_then (put_block vd i (blk p)) (\<lambda>(vd', i'). put_block vd' i' (concat (map blk ps)))"
    using rest by (auto simp: step put_block_def)
  then show ?case by (simp add: put_block_seq)
qed

lemma concat_product:
  "concat (map (\<lambda>x. concat (map (g x) ys)) xs) = concat (map (\<lambda>(x, y). g x y) (List.product xs ys))"
  by (induction xs) (simp_all add: comp_def)

lemma atlas_rect_rect_of:
  "TEXTURE_N_TILES_PER_ROW C \<noteq> 0 \<Longrightarrow> atlas_rect C t = Inr (rect_of C t)"
  by (simp add: atlas_rect_value rect_of_def)

lemma length_quad_floats: "length (quad_floats x y r) = 24"
  by (cases r) (simp add: quad_floats_def)

lemma grid_index_bound:
  assumes "a < c" and "b < r"
  shows "b * c + a < r * (c::nat)"
proof -
  have "b * c + a < b * c + c" using assms by simp
  also have "\<dots> = Suc b * c" by simp
  also have "\<dots> \<le> r * c" using assms by (intro mult_le_mono1) simp
  finally show ?thesis .
qed

lemma list_getitem_nat: "k < length xs \<Longrightarrow> list_getitem xs (int k) = Inr (xs ! k)"
  by (simp add: list_getitem_def Let_def)

lemma getitem_in_grid:
  assumes "tilemap_fits C tm" and "x \<in> set (py_range (TILEMAP_N_COLS C))"
    and "y \<in> set (py_range (TILEMAP_N_ROWS C))"
  shows "tilemap_getitem C tm (y, x) = Inr (cell C tm x y)"
proof -
  from assms(2) obtain a where a: "x = int a" "a < nat (TILEMAP_N_COLS C)"
    by (auto simp: py_range_def)
  from assms(3) obtain b where b: "y = int b" "b < nat (TILEMAP_N_ROWS C)"
    by (auto simp: py_range_def)
  define k where "k = b * nat (TILEMAP_N_COLS C) + a"
  from a have cols: "TILEMAP_N_COLS C = int (nat (TILEMAP_N_COLS C))" by simp
  have idx: "y * TILEMAP_N_COLS C + x = int k"
    unfolding k_def using a b by (subst cols) simp
  have "k < length (map_tm tm)"
    unfolding k_def using assms(1) a b by (simp add: tilemap_fits_def grid_index_bound)
  then have "list_getitem (map_tm tm) (int k) = Inr (map_tm tm ! k)"
    by (rule list_getitem_nat)
  then show ?thesis
    unfolding tilemap_getitem_def cell_def by (simp add: idx)
qed

lemma length_concat_const:
  "(\<And>p. p \<in> set ps \<Longrightarrow> length (f p) = n) \<Longrightarrow> length (concat (map f ps)) = length ps * n"
  by (induction ps) simp_all

lemma length_py_range: "length (py_range n) = nat n"
  by (simp add: py_range_def)

lemma length_loop_cells: "length (loop_cells C) = nat (TILEMAP_N_COLS C) * nat (TILEMAP_N_ROWS C)"
  by (simp add: loop_cells_def length_py_range)

lemma length_expected_vertex_data:
  "length (expected_vertex_data C tm) = nat (TILEMAP_N_ROWS C) * nat (TILEMAP_N_COLS C) * 24"
  unfolding expected_vertex_data_def
  by (subst length_concat_const [where n = 24])
     (auto simp: length_quad_floats length_loop_cells)

lemma vertex_loops_value:
  assumes fits: "tilemap_fits C tm" and nz: "TEXTURE_N_TILES_PER_ROW C \<noteq> 0"
    and room: "i \<le> length vd"
  shows "for_loop (py_range (TILEMAP_N_COLS C)) (\<lambda>x.
            for_loop (py_range (TILEMAP_N_ROWS C)) (\<lambda>y. vertex_tile C tm x y)) (vd, i)
         = put_block vd i (expected_vertex_data C tm)"
proof -
  have tile: "vertex_tile C tm x y (vd', i') = put_block vd' i' (quad_floats x y (rect_of C (cell C tm x y)))"
    if "x \<in> set (py_range (TILEMAP_N_COLS C))" "y \<in> set (py_range (TILEMAP_N_ROWS C))"
    for x y vd' i'
    using that fits nz by (simp add: vertex_tile_eq getitem_in_grid atlas_rect_rect_of)
  have column: "for_loop (py_range (TILEMAP_N_ROWS C)) (\<lambda>y. vertex_tile C tm x y) (vd', i')
      = put_block vd' i' (concat (map (\<lambda>y. quad_floats x y (rect_of C (cell C tm x y)))
                                       (py_range (TILEMAP_N_ROWS C))))"
    if "x \<in> set (py_range (TILEMAP_N_COLS C))" "i' \<le> length vd'" for x vd' i'
    using that by (intro for_loop_blocks) (simp_all add: tile)
  show ?thesis
    unfolding expected_vertex_data_def loop_cells_def concat_product [symmetric]
    by (rule for_loop_blocks) (simp_all add: column room)
qed

lemma vertex_data_value:
  assumes fits: "tilemap_fits C tm" and nz: "TEXTURE_N_TILES_PER_ROW C \<noteq> 0"
  shows "VertexBufferedRenderer_vertex_data C tm = Inr (expected_vertex_data C tm)"
proof -
  let ?n = "tilemap_len tm * 6 * 2 * 2"
  have len: "length (expected_vertex_data C tm) = ?n"
    using fits by (simp add: length_expected_vertex_data tilemap_fits_def tilemap_len_def)
  have "for_loop (py_range (TILEMAP_N_COLS C)) (\<lambda>x.
            for_loop (py_range (TILEMAP_N_ROWS C)) (\<lambda>y. vertex_tile C tm x y))
          (replicate ?n 0, 0)
        = put_block (replicate ?n 0) 0 (expected_vertex_data C tm)"
    using fits nz by (rule vertex_loops_value) simp
  also have "\<dots> = Inr (expected_vertex_data C tm, ?n)"
    by (simp add: put_block_def len)
  finally show ?thesis
    by (simp add: VertexBufferedRenderer_vertex_data_def Let_def)
qed

lemma vertices_append:
  "length a mod 4 = 0 \<Longrightarrow> vertices (a @ b) = vertices a @ vertices b"
  by (induction a rule: vertices.induct) simp_all

lemma vertices_concat:
  "(\<And>p. p \<in> set ps \<Longrightarrow> length (f p) mod 4 = 0)
     \<Longrightarrow> vertices (concat (map f ps)) = concat (map (\<lambda>p. vertices (f p)) ps)"
  by (induction ps) (simp_all add: vertices_append)

lemma slice_concat:
  "(\<And>p. p \<in> set ps \<Longrightarrow> length (f p) = n) \<Longrightarrow> k < length ps
     \<Longrightarrow> take n (drop (k * n) (concat (map f ps))) = f (ps ! k)"
proof (induction ps arbitrary: k)
  case Nil
  then show ?case by simp
next
  case (Cons p ps)
  show ?case
  proof (cases k)
    case 0
    then show ?thesis using Cons.prems by simp
  next
    case (Suc j)
    then show ?thesis using Cons by simp
  qed
qed

lemma vertices_quad_floats: "vertices (quad_floats x y r) = quad_vertices x y r"
  by (cases r) (simp add: quad_floats_def quad_vertices_def)

lemma vertices_expected:
  "vertices (expected_vertex_data C tm)
     = concat (map (\<lambda>(x, y). quad_vertices x y (rect_of C (cell C tm x y))) (loop_cells C))"
  unfolding expected_vertex_data_def
  by (subst vertices_concat) (auto simp: length_quad_floats vertices_quad_floats split_def)

lemma length_quad_vertices: "length (quad_vertices x y r) = 6"
  by (cases r) (simp add: quad_vertices_def)




subsection \<open>The pyglet renderer against the per-vertex renderer\<close>

lemma two_back: "2 \<le> i \<Longrightarrow> Suc (Suc (i - 2)) = i"
  by simp

lemma put_vertex2_pair:
  "put_vertex2 (pd, td) j a b c d = put_block2 (pd, td) j ([a, b], [c, d])"
proof (cases "j + 2 \<le> length pd \<and> j + 2 \<le> length td")
  case True
  have p: "pd[j := a, j + 1 := b] = take j pd @ [a, b] @ drop (j + 2) pd"
    using True by (intro nth_equalityI) (auto simp: nth_append nth_list_update nth_Cons' two_back)
  have t: "td[j := c, j + 1 := d] = take j td @ [c, d] @ drop (j + 2) td"
    using True by (intro nth_equalityI) (auto simp: nth_append nth_list_update nth_Cons' two_back)
  from True p t show ?thesis
    by (simp add: put_vertex2_def put_block2_def list_setitem_def)
next
  case False
  then show ?thesis
    by (auto simp: put_vertex2_def put_block2_def list_setitem_def)
qed

lemma put_vertex2_block:
  "put_vertex2 data j a b c d = put_block2 data j ([a, b], [c, d])"
  by (cases data) (simp add: put_vertex2_pair)

lemma put_block2_seq:
  "length bp1 = length bt1 \<Longrightarrow>
   and_then (put_block2 d j (bp1, bt1)) (\<lambda>(d', j'). put_block2 d' j' (bp2, bt2))
     = put_block2 d j (bp1 @ bp2, bt1 @ bt2)"
  by (cases d) (auto simp: put_block2_def ac_simps)

lemma put_block2_then:
  "length bp1 = length bt1 \<Longrightarrow>
   and_then (put_block2 d j (bp1, bt1)) (\<lambda>(d', j'). and_then (put_block2 d' j' (bp2, bt2)) f)
     = and_then (put_block2 d j (bp1 @ bp2, bt1 @ bt2)) f"
  by (cases d) (auto simp: put_block2_def ac_simps)

lemma pyglet_tile_eq:
  "pyglet_tile C tm x y (d, j) =
     and_then (tilemap_getitem C tm (y, x)) (\<lambda>tile.
     and_then (atlas_rect C tile) (\<lambda>rect.
       put_block2 d j (quad_positions x y, quad_texcoords rect)))"
proof -
  have "pyglet_tile C tm x y (d, j) =
     and_then (tilemap_getitem C tm (y, x)) (\<lambda>tile.
     and_then (atlas_rect C tile) (\<lambda>(tx0, ty0, tSize). put_block2 d j
       ([real_of_int x, real_of_int y, real_of_int x + 1, real_of_int y,
         real_of_int x, real_of_int y + 1, real_of_int x + 1, real_of_int y,
         real_of_int x, real_of_int y + 1, real_of_int x + 1, real_of_int y + 1],
        [tx0, ty0, tx0 + tSize, ty0, tx0, ty0 + tSize,
         tx0 + tSize, ty0, tx0, ty0 + tSize, tx0 + tSize, ty0 + tSize])))"
    unfolding pyglet_tile_def
    by (simp add: put_vertex2_block put_block2_then put_block2_seq)
  also have "\<dots> = and_then (tilemap_getitem C tm (y, x)) (\<lambda>tile.
     and_then (atlas_rect C tile) (\<lambda>rect.
       put_block2 d j (quad_positions x y, quad_texcoords rect)))"
    by (simp add: quad_positions_def quad_texcoords_def split_def)
  finally show ?thesis .
qed

lemma length_one_odd: "Suc 0 = length ps \<Longrightarrow> even (length ps) \<Longrightarrow> False"
  by (cases ps) auto

lemma length_interleave:
  "length td = length pd \<Longrightarrow> even (length pd) \<Longrightarrow> length (interleave pd td) = 2 * length pd"
  by (induction pd td rule: interleave.induct) (auto dest: length_one_odd)

lemma interleave_append:
  "length c = length a \<Longrightarrow> even (length a)
     \<Longrightarrow> interleave (a @ b) (c @ d) = interleave a c @ interleave b d"
  by (induction a c rule: interleave.induct) (auto dest: length_one_odd)

lemma interleave_take:
  "even j \<Longrightarrow> interleave (take j pd) (take j td) = take (2 * j) (interleave pd td)"
proof (induction pd td arbitrary: j rule: interleave.induct)
  case (1 a b ps c d ts)
  show ?case
  proof (cases j)
    case 0
    then show ?thesis by simp
  next
    case (Suc k)
    with \<open>even j\<close> obtain m where m: "j = Suc (Suc m)" "even m"
      by (cases k) auto
    then show ?thesis using "1.IH" [of m] by simp
  qed
qed (auto elim!: evenE simp: take_Cons' split: if_splits)

lemma interleave_drop:
  "even j \<Longrightarrow> interleave (drop j pd) (drop j td) = drop (2 * j) (interleave pd td)"
proof (induction pd td arbitrary: j rule: interleave.induct)
  case (1 a b ps c d ts)
  show ?case
  proof (cases j)
    case 0
    then show ?thesis by simp
  next
    case (Suc k)
    with \<open>even j\<close> obtain m where m: "j = Suc (Suc m)" "even m"
      by (cases k) auto
    then show ?thesis using "1.IH" [of m] by simp
  qed
qed (auto elim!: evenE simp: drop_Cons' split: if_splits)

lemma interleave_quad:
  "interleave (quad_positions x y) (quad_texcoords r) = quad_floats x y r"
  by (cases r) (simp add: quad_positions_def quad_texcoords_def quad_floats_def)

lemma length_quad_positions: "length (quad_positions x y) = 12"
  by (simp add: quad_positions_def)

lemma length_quad_texcoords: "length (quad_texcoords r) = 12"
  by (cases r) (simp add: quad_texcoords_def)

lemma same_layout_block:
  assumes "same_layout n (vd, i) ((pd, td), j)"
  shows "rel_sum (=) (same_layout n)
           (put_block vd i (quad_floats x y r))
           (put_block2 (pd, td) j (quad_positions x y, quad_texcoords r))"
proof -
  from assms have vd: "vd = interleave pd td" and i: "i = 2 * j"
    and len: "length td = length pd" and ev: "even (length pd)" "even j"
    and n: "length pd = n"
    by (auto simp: same_layout_def)
  have lvd: "length vd = 2 * length pd"
    unfolding vd using len ev(1) by (rule length_interleave)
  show ?thesis
  proof (cases "j + 12 \<le> length pd")
    case False
    then show ?thesis
      using lvd i len
      by (simp add: put_block_def put_block2_def length_quad_floats length_quad_positions
            length_quad_texcoords)
  next
    case True
    let ?pd = "take j pd @ quad_positions x y @ drop (j + 12) pd"
    let ?td = "take j td @ quad_texcoords r @ drop (j + 12) td"
    have "interleave ?pd ?td
          = interleave (take j pd) (take j td)
            @ interleave (quad_positions x y @ drop (j + 12) pd) (quad_texcoords r @ drop (j + 12) td)"
      using True len ev by (intro interleave_append) simp_all
    also have "interleave (quad_positions x y @ drop (j + 12) pd) (quad_texcoords r @ drop (j + 12) td)
          = interleave (quad_positions x y) (quad_texcoords r)
            @ interleave (drop (j + 12) pd) (drop (j + 12) td)"
      by (intro interleave_append) (simp_all add: length_quad_positions length_quad_texcoords)
    finally have "interleave ?pd ?td
          = take (2 * j) vd @ quad_floats x y r @ drop (2 * (j + 12)) vd"
      using ev by (simp add: interleave_take interleave_drop interleave_quad vd)
    then have data: "take i vd @ quad_floats x y r @ drop (i + 24) vd = interleave ?pd ?td"
      by (simp add: i)
    have "same_layout n (take i vd @ quad_floats x y r @ drop (i + 24) vd, i + 24) ((?pd, ?td), j + 12)"
      unfolding same_layout_def using True len ev i data n
      by (simp add: length_quad_positions length_quad_texcoords)
    then show ?thesis
      using True lvd i len
      by (simp add: put_block_def put_block2_def length_quad_floats length_quad_positions
            length_quad_texcoords)
  qed
qed

lemma same_layout_tile:
  assumes "same_layout n s t"
  shows "rel_sum (=) (same_layout n) (vertex_tile C tm x y s) (pyglet_tile C tm x y t)"
proof -
  obtain vd i where s: "s = (vd, i)" by (cases s)
  obtain pd td j where t: "t = ((pd, td), j)" by (cases t) auto
  show ?thesis
  proof (cases "tilemap_getitem C tm (y, x)")
    case (Inl e)
    then show ?thesis by (simp add: s t vertex_tile_eq pyglet_tile_eq)
  next
    case tile: (Inr tile)
    show ?thesis
    proof (cases "atlas_rect C tile")
      case (Inl e)
      then show ?thesis by (simp add: s t tile vertex_tile_eq pyglet_tile_eq)
    next
      case (Inr r)
      then show ?thesis
        using assms same_layout_block [of n vd i pd td j x y r]
        by (simp add: s t tile vertex_tile_eq pyglet_tile_eq)
    qed
  qed
qed

lemma for_loop_rel:
  assumes "\<And>p s t. p \<in> set ps \<Longrightarrow> R s t \<Longrightarrow> rel_sum (=) R (f p s) (g p t)"
    and "R s t"
  shows "rel_sum (=) R (for_loop ps f s) (for_loop ps g t)"
  using assms
proof (induction ps arbitrary: s t)
  case Nil
  then show ?case by simp
next
  case (Cons p ps)
  have step: "rel_sum (=) R (f p s) (g p t)"
    using Cons.prems by simp
  show ?case
  proof (cases "f p s")
    case (Inl e)
    with step show ?thesis by (cases "g p t") simp_all
  next
    case (Inr s')
    with step obtain t' where t': "g p t = Inr t'" "R s' t'"
      by (cases "g p t") simp_all
    have "rel_sum (=) R (for_loop ps f s') (for_loop ps g t')"
      using Cons.prems(1) t'(2) by (intro Cons.IH) simp_all
    then show ?thesis by (simp add: Inr t'(1))
  qed
qed

lemma interleave_zeros:
  "interleave (replicate (2 * k) 0) (replicate (2 * k) 0) = replicate (4 * k) 0"
proof (induction k)
  case 0
  then show ?case by simp
next
  case (Suc k)
  have two: "2 * Suc k = Suc (Suc (2 * k))" and four: "4 * Suc k = Suc (Suc (Suc (Suc (4 * k))))"
    by simp_all
  show ?case
    unfolding two four using Suc.IH by simp
qed

lemma pyglet_interleaves_to_vertex_data:
  "map_sum id (\<lambda>vl. interleave (aPosition vl) (aTexCoord vl))
     (Pyglet_update_vbo C tm (Pyglet_allocate_vbo_vao tm))
   = VertexBufferedRenderer_vertex_data C tm"
proof -
  let ?n = "tilemap_len tm"
  let ?s = "(replicate (?n * 6 * 2 * 2) (0::real), 0::nat)"
  let ?t = "((replicate (?n * 6 * 2) (0::real), replicate (?n * 6 * 2) (0::real)), 0::nat)"
  let ?fs = "for_loop (py_range (TILEMAP_N_COLS C)) (\<lambda>x.
          for_loop (py_range (TILEMAP_N_ROWS C)) (\<lambda>y. vertex_tile C tm x y)) ?s"
  let ?gt = "for_loop (py_range (TILEMAP_N_COLS C)) (\<lambda>x.
          for_loop (py_range (TILEMAP_N_ROWS C)) (\<lambda>y. pyglet_tile C tm x y)) ?t"
  have "?n * 6 * 2 = 2 * (?n * 6)" "?n * 6 * 2 * 2 = 4 * (?n * 6)"
    by simp_all
  then have start: "same_layout (?n * 6 * 2) ?s ?t"
    using interleave_zeros [of "?n * 6"] by (simp add: same_layout_def)
  have rel: "rel_sum (=) (same_layout (?n * 6 * 2)) ?fs ?gt"
    by (intro for_loop_rel same_layout_tile start)
  show ?thesis
  proof (cases ?fs)
    case (Inl e)
    with rel obtain e' where "?gt = Inl e'" "e' = e"
      by (cases ?gt) simp_all
    with Inl show ?thesis
      by (simp add: Pyglet_update_vbo_def Pyglet_allocate_vbo_vao_def
            VertexBufferedRenderer_vertex_data_def Let_def)
  next
    case (Inr s')
    with rel obtain t' where t': "?gt = Inr t'" "same_layout (?n * 6 * 2) s' t'"
      by (cases ?gt) simp_all
    obtain vd i where s': "s' = (vd, i)" by (cases s')
    obtain pd td j where t'': "t' = ((pd, td), j)" by (cases t') auto
    from t'(2) have same: "vd = interleave pd td" "length td = ?n * 6 * 2"
      by (simp_all add: s' t'' same_layout_def)
    with Inr t'(1) show ?thesis
      by (simp add: Pyglet_update_vbo_def Pyglet_allocate_vbo_vao_def
            VertexBufferedRenderer_vertex_data_def Let_def s' t'')
  qed
qed

subsection \<open>The point renderer against the per-vertex renderer\<close>

lemma quads_of_concat:
  assumes "\<And>p. p \<in> set ps \<Longrightarrow> length (f p) = 24"
  shows "quads_of (concat (map f ps)) = map f ps"
proof -
  have len: "length (concat (map f ps)) = length ps * 24"
    using assms by (rule length_concat_const)
  show ?thesis
    unfolding quads_of_def len
    using assms by (intro nth_equalityI) (simp_all add: slice_concat)
qed

lemma uint32_roundtrip:
  assumes "tiles_are_uint32 tm" and "i < length (map_tm tm)"
  shows "uint (word_of_int (map_tm tm ! i) :: 32 word) = map_tm tm ! i"
proof -
  from assms have "0 \<le> map_tm tm ! i \<and> map_tm tm ! i < 2 ^ 32"
    by (simp add: tiles_are_uint32_def list_all_length)
  then show ?thesis
    by (simp add: uint_word_of_int take_bit_int_eq_self)
qed

lemma geometry_point:
  assumes fits: "tilemap_fits C tm" and range: "tiles_are_uint32 tm"
    and a: "a < nat (TILEMAP_N_COLS C)" and b: "b < nat (TILEMAP_N_ROWS C)"
  shows "geometry_stage C (TILEMAP_N_COLS C) (b * nat (TILEMAP_N_COLS C) + a)
           (GeomBufferedRenderer_vertex_data tm ! (b * nat (TILEMAP_N_COLS C) + a))
         = quad_floats (int a) (int b) (rect_of C (cell C tm (int a) (int b)))"
proof -
  let ?c = "nat (TILEMAP_N_COLS C)"
  define k where "k = b * ?c + a"
  from a have cols: "TILEMAP_N_COLS C = int ?c" by simp
  have lt: "k < length (map_tm tm)"
    unfolding k_def using fits a b by (simp add: tilemap_fits_def grid_index_bound)
  have dm: "k mod ?c = a" "k div ?c = b"
    unfolding k_def using a by simp_all
  have "int k mod TILEMAP_N_COLS C = int (k mod ?c)" "int k div TILEMAP_N_COLS C = int (k div ?c)"
    by (subst cols, simp add: zmod_int zdiv_int)+
  then have xy: "int k mod TILEMAP_N_COLS C = int a" "int k div TILEMAP_N_COLS C = int b"
    by (simp_all add: dm)
  have "int b * TILEMAP_N_COLS C + int a = int k"
    unfolding k_def by (subst cols) simp
  then have cellk: "cell C tm (int a) (int b) = map_tm tm ! k"
    by (simp add: cell_def)
  have "GeomBufferedRenderer_vertex_data tm ! k = word_of_int (map_tm tm ! k)"
    using lt by (simp add: GeomBufferedRenderer_vertex_data_def)
  then have "uint (GeomBufferedRenderer_vertex_data tm ! k) = map_tm tm ! k"
    using range lt by (simp add: uint32_roundtrip)
  then show ?thesis
    unfolding k_def [symmetric] geometry_stage_def xy cellk by simp
qed

lemma geometry_matches_vertex:
  assumes fits: "tilemap_fits C tm" and range: "tiles_are_uint32 tm"
  shows "set (geometry_expand C (GeomBufferedRenderer_vertex_data tm))
         = set (quads_of (expected_vertex_data C tm))"
proof -
  let ?c = "nat (TILEMAP_N_COLS C)" and ?r = "nat (TILEMAP_N_ROWS C)"
  let ?q = "\<lambda>(x, y). quad_floats x y (rect_of C (cell C tm x y))"
  let ?g = "\<lambda>k. geometry_stage C (TILEMAP_N_COLS C) k (GeomBufferedRenderer_vertex_data tm ! k)"
  have quads: "quads_of (expected_vertex_data C tm) = map ?q (loop_cells C)"
    unfolding expected_vertex_data_def
    by (rule quads_of_concat) (auto simp: length_quad_floats)
  have cells: "set (loop_cells C) = {(int a, int b) | a b. a < ?c \<and> b < ?r}"
    by (auto simp: loop_cells_def py_range_def)
  have len: "length (GeomBufferedRenderer_vertex_data tm) = ?r * ?c"
    using fits by (simp add: GeomBufferedRenderer_vertex_data_def tilemap_fits_def)
  have left: "set (geometry_expand C (GeomBufferedRenderer_vertex_data tm)) = ?g ` {..<?r * ?c}"
    by (auto simp: geometry_expand_def len)
  have "?g ` {..<?r * ?c} = ?q ` {(int a, int b) | a b. a < ?c \<and> b < ?r}"
  proof (intro equalityI subsetI)
    fix v assume "v \<in> ?g ` {..<?r * ?c}"
    then obtain k where k: "k < ?r * ?c" "v = ?g k" by auto
    define a b where "a = k mod ?c" and "b = k div ?c"
    from k(1) have cpos: "0 < ?c" by (cases "?c") simp_all
    have ab: "a < ?c" "b < ?r" "k = b * ?c + a"
      using k(1) cpos by (simp_all add: a_def b_def less_mult_imp_div_less)
    have "v = ?q (int a, int b)"
      using geometry_point [OF fits range ab(1,2)] k(2) ab(3) by simp
    with ab show "v \<in> ?q ` {(int a, int b) | a b. a < ?c \<and> b < ?r}" by blast
  next
    fix v assume "v \<in> ?q ` {(int a, int b) | a b. a < ?c \<and> b < ?r}"
    then obtain a b where ab: "a < ?c" "b < ?r" "v = ?q (int a, int b)" by auto
    have "b * ?c + a < ?r * ?c"
      using ab by (simp add: grid_index_bound)
    moreover have "v = ?g (b * ?c + a)"
      using geometry_point [OF fits range ab(1,2)] ab(3) by simp
    ultimately show "v \<in> ?g ` {..<?r * ?c}" by blast
  qed
  with left quads cells show ?thesis by simp
qed

subsection \<open>Runs of the builders on small inputs\<close>

text \<open>
  The per-vertex builder on a grid of one column and two rows: tile 5 of an atlas with
  four tiles in a row sits at column 1 of row 1 of the atlas, tile 2 at column 2 of
  row 0.
\<close>

lemma run_small:
  "VertexBufferedRenderer_vertex_data C12 \<lparr>map_tm = [5, 2], texture = 1\<rparr> =
     Inr [0, 0, 1/4, 1/4,  1, 0, 1/2, 1/4,  0, 1, 1/4, 1/2,  1, 0, 1/2, 1/4,  0, 1, 1/4, 1/2,  1, 1, 1/2, 1/2,
          0, 1, 1/2, 0,    1, 1, 3/4, 0,    0, 2, 1/2, 1/4,  1, 1, 3/4, 0,    0, 2, 1/2, 1/4,  1, 2, 3/4, 1/4]"
  by code_simp

text \<open>A tilemap with fewer tiles than the grid makes the builder raise.\<close>

lemma run_short_tilemap:
  "VertexBufferedRenderer_vertex_data C12 \<lparr>map_tm = [5], texture = 1\<rparr> = Inl IndexError"
  by (simp add: VertexBufferedRenderer_vertex_data_def C12_def tilemap_len_def py_range_def
        vertex_tile_def tilemap_getitem_def list_getitem_def atlas_rect_def py_mod_def
        py_floordiv_def put_vertex_def list_setitem_def Let_def upt_rec)

text \<open>The pyglet builder on the same input.\<close>

lemma run_pyglet_small:
  "Pyglet_update_vbo C12 \<lparr>map_tm = [5, 2], texture = 1\<rparr>
      (Pyglet_allocate_vbo_vao \<lparr>map_tm = [5, 2], texture = 1\<rparr>) =
     Inr \<lparr>aPosition = [0, 0, 1, 0, 0, 1, 1, 0, 0, 1, 1, 1,  0, 1, 1, 1, 0, 2, 1, 1, 0, 2, 1, 2],
          aTexCoord = [1/4, 1/4, 1/2, 1/4, 1/4, 1/2, 1/2, 1/4, 1/4, 1/2, 1/2, 1/2,
                       1/2, 0, 3/4, 0, 1/2, 1/4, 3/4, 0, 1/2, 1/4, 3/4, 1/4]\<rparr>"
  by code_simp

text \<open>
  The upload of the point renderer keeps the low 32 bits of a tile index: the geometry
  stage sees the index \<open>2 ^ 32 + 9\<close> as 9.
\<close>

lemma run_geometry_small:
  "geometry_expand C33 (GeomBufferedRenderer_vertex_data \<lparr>map_tm = [9, 2 ^ 32 + 9], texture = 1\<rparr>)
   = [quad_floats 0 0 (rect_of C33 9), quad_floats 1 0 (rect_of C33 9)]"
  by (simp add: geometry_expand_def GeomBufferedRenderer_vertex_data_def geometry_stage_def C33_def upt_rec)

subsection \<open>The claims about the three builders\<close>

lemma fits33: "tilemap_fits C33 tm33"
  by (simp add: tilemap_fits_def C33_def tm33_def)

lemma uint33: "tiles_are_uint32 tm33"
  by (simp add: tiles_are_uint32_def tm33_def)

text \<open>
  Claim C4. For a tilemap that fits the grid and holds unsigned 32-bit tile indices, and
  an atlas with a positive number of tiles per row, the geometry stage applied to the
  points uploaded by the point renderer yields exactly the set of quads that the
  per-vertex renderer writes into its buffer.
\<close>

theorem point_mode_same_quads:
  assumes "tilemap_fits C tm" and "tiles_are_uint32 tm" and "0 < TEXTURE_N_TILES_PER_ROW C"
  shows "\<exists>vd. VertexBufferedRenderer_vertex_data C tm = Inr vd
           \<and> set (geometry_expand C (GeomBufferedRenderer_vertex_data tm)) = set (quads_of vd)"
proof -
  from assms(3) have "TEXTURE_N_TILES_PER_ROW C \<noteq> 0" by simp
  with assms(1) have "VertexBufferedRenderer_vertex_data C tm = Inr (expected_vertex_data C tm)"
    by (rule vertex_data_value)
  with geometry_matches_vertex [OF assms(1,2)] show ?thesis by simp
qed

theorem point_mode_same_quads_witness:
  "tilemap_fits C33 tm33 \<and> tiles_are_uint32 tm33 \<and> 0 < TEXTURE_N_TILES_PER_ROW C33
   \<and> (\<exists>vd. VertexBufferedRenderer_vertex_data C33 tm33 = Inr vd
           \<and> set (geometry_expand C33 (GeomBufferedRenderer_vertex_data tm33)) = set (quads_of vd))"
proof -
  have pos: "0 < TEXTURE_N_TILES_PER_ROW C33" by (simp add: C33_def)
  from point_mode_same_quads [OF fits33 uint33 pos] fits33 uint33 pos show ?thesis by simp
qed

subsection \<open>The builder with the conversion of integers to floats\<close>

lemma int_to_float_in_range:
  "\<bar>k\<bar> < 2 ^ 1024 - 2 ^ 970 \<Longrightarrow> int_to_float k = Inr (real_of_int k)"
  by (simp add: int_to_float_def)

lemma int_to_float_overflow:
  "\<not> \<bar>k\<bar> < 2 ^ 1024 - 2 ^ 970 \<Longrightarrow> int_to_float k = Inl OverflowError"
  by (simp add: int_to_float_def)

lemma atlas_rect_checked_safe:
  assumes "TEXTURE_N_TILES_PER_ROW C \<noteq> 0" and "float_safe C t"
  shows "atlas_rect_checked C t = Inr (rect_of C t)"
  using assms
  by (simp add: atlas_rect_checked_def py_mod_def py_floordiv_def float_safe_def
        int_to_float_in_range rect_of_def)

lemma vertex_tile_checked_eq:
  "vertex_tile_checked C tm x y (vd, i) =
     and_then (tilemap_getitem C tm (y, x)) (\<lambda>tile.
     and_then (atlas_rect_checked C tile) (\<lambda>rect. put_block vd i (quad_floats x y rect)))"
proof -
  have "vertex_tile_checked C tm x y (vd, i) =
     and_then (tilemap_getitem C tm (y, x)) (\<lambda>tile.
     and_then (atlas_rect_checked C tile) (\<lambda>(tx0, ty0, tSize). put_block vd i
       [real_of_int x, real_of_int y, tx0, ty0,
        real_of_int x + 1, real_of_int y, tx0 + tSize, ty0,
        real_of_int x, real_of_int y + 1, tx0, ty0 + tSize,
        real_of_int x + 1, real_of_int y, tx0 + tSize, ty0,
        real_of_int x, real_of_int y + 1, tx0, ty0 + tSize,
        real_of_int x + 1, real_of_int y + 1, tx0 + tSize, ty0 + tSize]))"
    unfolding vertex_tile_checked_def
    by (simp add: put_vertex_block put_block_then put_block_seq)
  also have "\<dots> = and_then (tilemap_getitem C tm (y, x)) (\<lambda>tile.
     and_then (atlas_rect_checked C tile) (\<lambda>rect. put_block vd i (quad_floats x y rect)))"
    by (simp add: quad_floats_def split_def)
  finally show ?thesis .
qed

lemma cell_in_tilemap:
  assumes "tilemap_fits C tm" and "x \<in> set (py_range (TILEMAP_N_COLS C))"
    and "y \<in> set (py_range (TILEMAP_N_ROWS C))"
  shows "cell C tm x y \<in> set (map_tm tm)"
proof -
  from assms(2) obtain a where a: "x = int a" "a < nat (TILEMAP_N_COLS C)"
    by (auto simp: py_range_def)
  from assms(3) obtain b where b: "y = int b" "b < nat (TILEMAP_N_ROWS C)"
    by (auto simp: py_range_def)
  define k where "k = b * nat (TILEMAP_N_COLS C) + a"
  from a have cols: "TILEMAP_N_COLS C = int (nat (TILEMAP_N_COLS C))" by simp
  have idx: "y * TILEMAP_N_COLS C + x = int k"
    unfolding k_def using a b by (subst cols) simp
  have "k < length (map_tm tm)"
    unfolding k_def using assms(1) a b by (simp add: tilemap_fits_def grid_index_bound)
  then have "map_tm tm ! k \<in> set (map_tm tm)" by (rule nth_mem)
  then show ?thesis by (simp add: cell_def idx)
qed

lemma checked_loops_value:
  assumes fits: "tilemap_fits C tm" and nz: "TEXTURE_N_TILES_PER_ROW C \<noteq> 0"
    and safe: "list_all (float_safe C) (map_tm tm)"
    and room: "i \<le> length vd"
  shows "for_loop (py_range (TILEMAP_N_COLS C)) (\<lambda>x.
            for_loop (py_range (TILEMAP_N_ROWS C)) (\<lambda>y. vertex_tile_checked C tm x y)) (vd, i)
         = put_block vd i (expected_vertex_data C tm)"
proof -
  have tile: "vertex_tile_checked C tm x y (vd', i')
      = put_block vd' i' (quad_floats x y (rect_of C (cell C tm x y)))"
    if "x \<in> set (py_range (TILEMAP_N_COLS C))" "y \<in> set (py_range (TILEMAP_N_ROWS C))"
    for x y vd' i'
  proof -
    have "float_safe C (cell C tm x y)"
      using safe cell_in_tilemap [OF fits that] by (simp add: list_all_iff)
    with nz have "atlas_rect_checked C (cell C tm x y) = Inr (rect_of C (cell C tm x y))"
      by (rule atlas_rect_checked_safe)
    then show ?thesis
      using fits that by (simp add: vertex_tile_checked_eq getitem_in_grid)
  qed
  have column: "for_loop (py_range (TILEMAP_N_ROWS C)) (\<lambda>y. vertex_tile_checked C tm x y) (vd', i')
      = put_block vd' i' (concat (map (\<lambda>y. quad_floats x y (rect_of C (cell C tm x y)))
                                       (py_range (TILEMAP_N_ROWS C))))"
    if "x \<in> set (py_range (TILEMAP_N_COLS C))" "i' \<le> length vd'" for x vd' i'
    using that by (intro for_loop_blocks) (simp_all add: tile)
  show ?thesis
    unfolding expected_vertex_data_def loop_cells_def concat_product [symmetric]
    by (rule for_loop_blocks) (simp_all add: column room)
qed

lemma checked_vertex_data_value:
  assumes fits: "tilemap_fits C tm" and nz: "TEXTURE_N_TILES_PER_ROW C \<noteq> 0"
    and safe: "list_all (float_safe C) (map_tm tm)"
  shows "VertexBufferedRenderer_vertex_data_checked C tm = Inr (expected_vertex_data C tm)"
proof -
  let ?n = "tilemap_len tm * 6 * 2 * 2"
  have len: "length (expected_vertex_data C tm) = ?n"
    using fits by (simp add: length_expected_vertex_data tilemap_fits_def tilemap_len_def)
  have "for_loop (py_range (TILEMAP_N_COLS C)) (\<lambda>x.
            for_loop (py_range (TILEMAP_N_ROWS C)) (\<lambda>y. vertex_tile_checked C tm x y))
          (replicate ?n 0, 0)
        = put_block (replicate ?n 0) 0 (expected_vertex_data C tm)"
    using fits nz safe by (rule checked_loops_value) simp
  also have "\<dots> = Inr (expected_vertex_data C tm, ?n)"
    by (simp add: put_block_def len)
  finally show ?thesis
    by (simp add: VertexBufferedRenderer_vertex_data_checked_def Let_def)
qed

lemma uint32_float_safe:
  assumes "0 < TEXTURE_N_TILES_PER_ROW C" and "0 \<le> t" and "t < 2 ^ 32"
  shows "float_safe C t"
proof -
  let ?n = "TEXTURE_N_TILES_PER_ROW C"
  have big: "(2::int) ^ 32 < 2 ^ 1024 - 2 ^ 970" by simp
  have m: "0 \<le> t mod ?n" "t mod ?n \<le> t"
    using assms by (simp_all add: zmod_le_nonneg_dividend)
  have d0: "0 \<le> t div ?n"
    using assms by (simp add: pos_imp_zdiv_nonneg_iff)
  have "t div ?n \<le> t div 1"
    using assms by (intro zdiv_mono2) simp_all
  then have d: "t div ?n \<le> t" by simp
  from m d0 d assms(3) big show ?thesis
    unfolding float_safe_def by linarith
qed

lemma for_loop_append:
  "for_loop (ps @ qs) body s = and_then (for_loop ps body s) (for_loop qs body)"
  by (induction ps arbitrary: s) (auto simp: and_then_def split: sum.splits)

lemma for_loop_map: "for_loop (map g ys) h s = for_loop ys (\<lambda>y. h (g y)) s"
  by (induction ys arbitrary: s) (simp_all add: and_then_def split: sum.splits)

lemma for_loop_product:
  "for_loop xs (\<lambda>x. for_loop ys (f x)) s = for_loop (List.product xs ys) (\<lambda>(x, y). f x y) s"
  by (induction xs arbitrary: s)
     (simp_all add: for_loop_append for_loop_map and_then_def split: sum.splits)

lemma atlas_rect_checked_unsafe:
  assumes "TEXTURE_N_TILES_PER_ROW C \<noteq> 0" and "\<not> float_safe C t"
  shows "atlas_rect_checked C t = Inl OverflowError"
  using assms
  by (auto simp: atlas_rect_checked_def py_mod_def py_floordiv_def float_safe_def
        int_to_float_def Let_def)

lemma unsafe_cell_exists:
  assumes fits: "tilemap_fits C tm" and unsafe: "\<not> list_all (float_safe C) (map_tm tm)"
  shows "\<exists>p \<in> set (loop_cells C). \<not> float_safe C (cell C tm (fst p) (snd p))"
proof -
  let ?c = "nat (TILEMAP_N_COLS C)" and ?r = "nat (TILEMAP_N_ROWS C)"
  from unsafe obtain k where k: "k < length (map_tm tm)" "\<not> float_safe C (map_tm tm ! k)"
    by (auto simp: list_all_length)
  from k(1) fits have lt: "k < ?r * ?c" by (simp add: tilemap_fits_def)
  then have cpos: "0 < ?c" by (cases "?c") simp_all
  define a b where "a = k mod ?c" and "b = k div ?c"
  have ab: "a < ?c" "b < ?r" "k = b * ?c + a"
    using lt cpos by (simp_all add: a_def b_def less_mult_imp_div_less)
  from ab(1) have cols: "TILEMAP_N_COLS C = int ?c" by simp
  have "int b * TILEMAP_N_COLS C + int a = int k"
    unfolding ab(3) by (subst cols) simp
  then have "cell C tm (int a) (int b) = map_tm tm ! k"
    by (simp add: cell_def)
  moreover have "(int a, int b) \<in> set (loop_cells C)"
    using ab by (simp add: loop_cells_def py_range_def)
  ultimately show ?thesis using k(2) by force
qed

lemma checked_flat_loop_overflow:
  assumes fits: "tilemap_fits C tm" and nz: "TEXTURE_N_TILES_PER_ROW C \<noteq> 0"
    and cells: "set (pre @ p # post) \<subseteq> set (loop_cells C)"
    and pre: "\<forall>q \<in> set pre. float_safe C (cell C tm (fst q) (snd q))"
    and p: "\<not> float_safe C (cell C tm (fst p) (snd p))"
    and room: "i + 24 * length pre \<le> length vd"
  shows "for_loop (pre @ p # post) (\<lambda>(x, y). vertex_tile_checked C tm x y) (vd, i)
         = Inl OverflowError"
proof -
  have in_grid: "fst q \<in> set (py_range (TILEMAP_N_COLS C)) \<and> snd q \<in> set (py_range (TILEMAP_N_ROWS C))"
    if "q \<in> set (pre @ p # post)" for q
    using that cells by (cases q) (auto simp: loop_cells_def)
  have ok: "(\<lambda>(x, y). vertex_tile_checked C tm x y) q (vd', i')
      = put_block vd' i' ((\<lambda>(x, y). quad_floats x y (rect_of C (cell C tm x y))) q)"
    if "q \<in> set pre" for q vd' i'
  proof -
    from that pre have "float_safe C (cell C tm (fst q) (snd q))" by blast
    with nz have "atlas_rect_checked C (cell C tm (fst q) (snd q))
        = Inr (rect_of C (cell C tm (fst q) (snd q)))"
      by (rule atlas_rect_checked_safe)
    then show ?thesis
      using fits in_grid [of q] that
      by (cases q) (simp add: vertex_tile_checked_eq getitem_in_grid)
  qed
  have len: "length (concat (map (\<lambda>(x, y). quad_floats x y (rect_of C (cell C tm x y))) pre))
      = length pre * 24"
    by (rule length_concat_const) (auto simp: length_quad_floats)
  have "for_loop pre (\<lambda>(x, y). vertex_tile_checked C tm x y) (vd, i)
      = put_block vd i (concat (map (\<lambda>(x, y). quad_floats x y (rect_of C (cell C tm x y))) pre))"
    using room by (intro for_loop_blocks) (simp_all add: ok)
  then obtain vd1 i1 where first:
    "for_loop pre (\<lambda>(x, y). vertex_tile_checked C tm x y) (vd, i) = Inr (vd1, i1)"
    using room by (simp add: put_block_def len mult.commute)
  have "atlas_rect_checked C (cell C tm (fst p) (snd p)) = Inl OverflowError"
    using nz p by (rule atlas_rect_checked_unsafe)
  then have "(\<lambda>(x, y). vertex_tile_checked C tm x y) p (vd1, i1) = Inl OverflowError"
    using fits in_grid [of p]
    by (cases p) (simp add: vertex_tile_checked_eq getitem_in_grid)
  with first show ?thesis
    by (simp add: for_loop_append)
qed

lemma checked_vertex_data_overflow:
  assumes fits: "tilemap_fits C tm" and nz: "TEXTURE_N_TILES_PER_ROW C \<noteq> 0"
    and unsafe: "\<not> list_all (float_safe C) (map_tm tm)"
  shows "VertexBufferedRenderer_vertex_data_checked C tm = Inl OverflowError"
proof -
  let ?bad = "\<lambda>p. \<not> float_safe C (cell C tm (fst p) (snd p))"
  from unsafe_cell_exists [OF fits unsafe] obtain pre p post where
    split: "loop_cells C = pre @ p # post" "?bad p" "\<forall>q \<in> set pre. \<not> ?bad q"
    using split_list_first_prop [of "loop_cells C" ?bad] by blast
  have "length pre < length (loop_cells C)"
    by (simp add: split(1))
  then have room: "0 + 24 * length pre \<le> length (replicate (tilemap_len tm * 6 * 2 * 2) (0::real))"
    using fits by (simp add: length_loop_cells tilemap_fits_def tilemap_len_def mult.commute)
  have "for_loop (pre @ p # post) (\<lambda>(x, y). vertex_tile_checked C tm x y)
          (replicate (tilemap_len tm * 6 * 2 * 2) 0, 0) = Inl OverflowError"
    using fits nz _ _ split(2) room
    by (rule checked_flat_loop_overflow) (use split in simp_all)
  then show ?thesis
    by (simp add: VertexBufferedRenderer_vertex_data_checked_def Let_def for_loop_product
          loop_cells_def [symmetric] split(1))
qed

text \<open>
  Claim C9, first as it is written: no tile index makes the construction raise. That
  fails on the code. On a grid of one tile whose index is \<open>10 ^ 400\<close>, the row number
  \<open>10 ^ 400 div 8\<close> is beyond the largest double, and the product of line 237 raises
  \<open>OverflowError\<close>.
\<close>

theorem huge_tile_index_raises:
  "tilemap_fits C11 tm_huge \<and> TEXTURE_N_TILES_PER_ROW C11 \<noteq> 0
   \<and> VertexBufferedRenderer_vertex_data_checked C11 tm_huge = Inl OverflowError"
proof -
  have fits: "tilemap_fits C11 tm_huge"
    by (simp add: tilemap_fits_def C11_def tm_huge_def)
  have nz: "TEXTURE_N_TILES_PER_ROW C11 \<noteq> 0"
    by (simp add: C11_def)
  have run: "VertexBufferedRenderer_vertex_data_checked C11 tm_huge = Inl OverflowError"
    by code_simp
  from fits nz run show ?thesis by blast
qed

text \<open>
  Claim C9, as amended. The builder checks no tile index against the atlas. For a
  tilemap that fits the grid and a non-zero number of tiles per row, the construction
  returns the buffer whose quads apply the atlas arithmetic to each index, in range of
  the atlas or not, when the column number and the row number of every index can be
  converted to floats; otherwise it raises \<open>OverflowError\<close>, from that conversion.
  Every unsigned 32-bit index can be converted when the number of tiles per row is
  positive.
\<close>

theorem tile_indices_unvalidated:
  assumes "tilemap_fits C tm" and "TEXTURE_N_TILES_PER_ROW C \<noteq> 0"
  shows "VertexBufferedRenderer_vertex_data_checked C tm =
           (if list_all (float_safe C) (map_tm tm)
            then Inr (concat (map (\<lambda>(x, y). quad_floats x y (rect_of C (cell C tm x y)))
                                  (loop_cells C)))
            else Inl OverflowError)
         \<and> (0 < TEXTURE_N_TILES_PER_ROW C \<and> tiles_are_uint32 tm
              \<longrightarrow> list_all (float_safe C) (map_tm tm))"
proof -
  have built: "VertexBufferedRenderer_vertex_data_checked C tm =
           (if list_all (float_safe C) (map_tm tm)
            then Inr (concat (map (\<lambda>(x, y). quad_floats x y (rect_of C (cell C tm x y)))
                                  (loop_cells C)))
            else Inl OverflowError)"
  proof (cases "list_all (float_safe C) (map_tm tm)")
    case True
    with assms show ?thesis
      by (simp add: checked_vertex_data_value expected_vertex_data_def)
  next
    case False
    with assms show ?thesis
      by (simp add: checked_vertex_data_overflow)
  qed
  have "list_all (float_safe C) (map_tm tm)"
    if "0 < TEXTURE_N_TILES_PER_ROW C" "tiles_are_uint32 tm"
    using that by (auto simp: tiles_are_uint32_def list_all_iff intro: uint32_float_safe)
  with built show ?thesis by blast
qed

theorem tile_indices_unvalidated_witness:
  "tilemap_fits C33 tm33 \<and> TEXTURE_N_TILES_PER_ROW C33 \<noteq> 0 \<and> tiles_are_uint32 tm33
   \<and> list_all (float_safe C33) (map_tm tm33)
   \<and> cell C33 tm33 2 2 = 1000
   \<and> rect_of C33 1000 = (1 / 1024, 125 / 8 + 1 / 1024, 1 / 8 - 2 / 1024)
   \<and> VertexBufferedRenderer_vertex_data_checked C33 tm33 =
        Inr (concat (map (\<lambda>(x, y). quad_floats x y (rect_of C33 (cell C33 tm33 x y)))
                         (loop_cells C33)))"
proof -
  have nz: "TEXTURE_N_TILES_PER_ROW C33 \<noteq> 0" and pos: "0 < TEXTURE_N_TILES_PER_ROW C33"
    by (simp_all add: C33_def)
  have c: "cell C33 tm33 2 2 = 1000" by (simp add: cell_def C33_def tm33_def)
  have r: "rect_of C33 1000 = (1 / 1024, 125 / 8 + 1 / 1024, 1 / 8 - 2 / 1024)"
    by (simp add: rect_of_def C33_def)
  from tile_indices_unvalidated [OF fits33 nz] pos uint33
  have safe: "list_all (float_safe C33) (map_tm tm33)"
    and run: "VertexBufferedRenderer_vertex_data_checked C33 tm33 =
        Inr (concat (map (\<lambda>(x, y). quad_floats x y (rect_of C33 (cell C33 tm33 x y)))
                         (loop_cells C33)))"
    by simp_all
  from fits33 nz uint33 safe c r run show ?thesis by blast
qed

text \<open>
  Claim C10. The pyglet renderer is a fourth variant with the same \<^verbatim>\<open>recalculate\<close>.
  For every tilemap and all constants, reading its position array and its texture
  coordinate array vertex by vertex gives the buffer of the per-vertex renderer, and it
  raises exactly when that renderer raises, with the same exception; for a tilemap that
  fits the grid and a non-zero number of tiles per row both return their arrays.
\<close>

theorem pyglet_variant_same_vertices:
  "map_sum id (\<lambda>vl. interleave (aPosition vl) (aTexCoord vl))
     (Pyglet_recalculate C tm (Pyglet_allocate_vbo_vao tm))
   = VertexBufferedRenderer_vertex_data C tm
   \<and> (tilemap_fits C tm \<and> TEXTURE_N_TILES_PER_ROW C \<noteq> 0 \<longrightarrow>
       (\<exists>vl vd. Pyglet_recalculate C tm (Pyglet_allocate_vbo_vao tm) = Inr vl
          \<and> VertexBufferedRenderer_vertex_data C tm = Inr vd
          \<and> interleave (aPosition vl) (aTexCoord vl) = vd))"
proof -
  let ?p = "Pyglet_recalculate C tm (Pyglet_allocate_vbo_vao tm)"
  have eq: "map_sum id (\<lambda>vl. interleave (aPosition vl) (aTexCoord vl)) ?p
            = VertexBufferedRenderer_vertex_data C tm"
    unfolding Pyglet_recalculate_def by (rule pyglet_interleaves_to_vertex_data)
  have "\<exists>vl vd. ?p = Inr vl \<and> VertexBufferedRenderer_vertex_data C tm = Inr vd
          \<and> interleave (aPosition vl) (aTexCoord vl) = vd"
    if "tilemap_fits C tm" "TEXTURE_N_TILES_PER_ROW C \<noteq> 0"
  proof -
    from that have "VertexBufferedRenderer_vertex_data C tm = Inr (expected_vertex_data C tm)"
      by (rule vertex_data_value)
    with eq show ?thesis by (cases ?p) simp_all
  qed
  with eq show ?thesis by blast
qed

theorem pyglet_variant_same_vertices_witness:
  "tilemap_fits C33 tm33 \<and> TEXTURE_N_TILES_PER_ROW C33 \<noteq> 0
   \<and> (\<exists>vl vd. Pyglet_recalculate C33 tm33 (Pyglet_allocate_vbo_vao tm33) = Inr vl
          \<and> VertexBufferedRenderer_vertex_data C33 tm33 = Inr vd
          \<and> interleave (aPosition vl) (aTexCoord vl) = vd)"
proof -
  have nz: "TEXTURE_N_TILES_PER_ROW C33 \<noteq> 0" by (simp add: C33_def)
  from pyglet_variant_same_vertices [of C33 tm33] fits33 nz show ?thesis by blast
qed

subsection \<open>Running the commands\<close>

lemmas cmd_defs = cmd_bind_def cmd_return_def cmd_raise_def cmd_read_def cmd_write_def cmd_lift_def
  handle_arg_def gl_def gl_new_def

lemma try_except_pass_result: "fst (try_except_pass body s) = Inr ()"
  by (cases "body s" rule: prod.exhaust; cases "fst (body s)") (auto simp: try_except_pass_def)

lemma del_body_context_gone:
  assumes "\<forall>c. gl_raises s c"
  shows "snd (del_body s) = s"
  using assms
  by (cases "vao_handle s") (simp_all add: del_body_def cmd_bind_def c_ulong_def gl_def)

text \<open>
  Claim C7. The destructor returns normally from every state, whichever of its calls
  raise; and when the context is gone, so that every call raises, it returns normally
  and leaves the state as it was.
\<close>

theorem del_never_raises:
  "fst (OpenGLRenderer_del s) = Inr ()
   \<and> ((\<forall>c. gl_raises s c) \<longrightarrow> OpenGLRenderer_del s = (Inr (), s))"
proof -
  have "fst (OpenGLRenderer_del s) = Inr ()"
    unfolding OpenGLRenderer_del_def by (rule try_except_pass_result)
  moreover have "snd (OpenGLRenderer_del s) = s" if "\<forall>c. gl_raises s c"
    using del_body_context_gone [OF that]
    by (cases "del_body s" rule: prod.exhaust; cases "fst (del_body s)")
       (auto simp: OpenGLRenderer_del_def try_except_pass_def)
  ultimately show ?thesis
    by (metis prod.collapse)
qed

theorem del_never_raises_witness:
  "(\<forall>c. gl_raises gone c) \<and> OpenGLRenderer_del gone = (Inr (), gone)"
proof -
  have "\<forall>c. gl_raises gone c" by (simp add: gone_def)
  with del_never_raises [of gone] show ?thesis by blast
qed

lemma geom_draw_calls:
  assumes quiet: "\<forall>c. \<not> gl_raises s c"
    and handles: "shader_handle s = Some p" "vao_handle s = Some a"
    and proj: "get_projection_matrix C = Inr m"
  shows "\<exists>s'. draw C GeomBufferedRenderer s = (Inr (), s')
        \<and> calls s' = calls s @
            [glBindTexture (texture_id s), glBindVertexArray a,
             glGetUniformLocation p ''projection'',
             glProgramUniformMatrix4fv p (uniform_location s ''projection'') m,
             glGetUniformLocation p ''n_cols'',
             glProgramUniform1i p (uniform_location s ''n_cols'') (TILEMAP_N_COLS C),
             glUseProgram p,
             glDrawArrays GL_POINTS 0 (tilemap_len (tilemap s))]"
  using assms by (simp add: cmd_defs prepare_params_to_set_uniform_def)

subsection \<open>What a command leaves alone\<close>

lemma preserves_bind:
  "preserves field m \<Longrightarrow> (\<And>v. preserves field (f v)) \<Longrightarrow> preserves field (cmd_bind m f)"
  by (auto simp: preserves_def cmd_bind_def split: prod.splits sum.splits) (metis snd_conv)+

lemma preserves_pure:
  "preserves field (cmd_return v)" "preserves field (cmd_raise e)" "preserves field (cmd_read g)"
  "preserves field (cmd_lift h)" "preserves field (handle_arg k)" "preserves field (c_ulong k)"
  by (auto simp: preserves_def cmd_return_def cmd_raise_def cmd_read_def cmd_lift_def
        handle_arg_def c_ulong_def split: option.splits)

lemma preserves_write:
  "(\<And>s. field (w s) = field s) \<Longrightarrow> preserves field (cmd_write w)"
  by (simp add: preserves_def cmd_write_def)

lemma preserves_gl:
  "(\<And>s. field (gl_effect c (s\<lparr>calls := calls s @ [c]\<rparr>)) = field s) \<Longrightarrow> preserves field (gl c)"
  by (simp add: preserves_def gl_def)

lemma preserves_gl_new:
  "(\<And>s. field (gl_effect c (s\<lparr>calls := calls s @ [c]\<rparr>)) = field s) \<Longrightarrow> preserves field (gl_new c)"
  by (simp add: preserves_def gl_new_def gl_def)

lemma preserves_for:
  "(\<And>x v. preserves field (body x v)) \<Longrightarrow> preserves field (cmd_for xs body v)"
  by (induction xs arbitrary: v) (simp_all add: preserves_pure preserves_bind)

lemma preserves_option:
  "preserves field a \<Longrightarrow> (\<And>x. preserves field (b x))
     \<Longrightarrow> preserves field (case v of None \<Rightarrow> a | Some x \<Rightarrow> b x)"
  by (cases v) simp_all

lemma only_calls_bind:
  "only_calls P m \<Longrightarrow> (\<And>v. only_calls P (f v)) \<Longrightarrow> only_calls P (cmd_bind m f)"
proof -
  assume m: "only_calls P m" and f: "\<And>v. only_calls P (f v)"
  show ?thesis
    unfolding only_calls_def
  proof
    fix s
    obtain r s1 where ms: "m s = (r, s1)" by (cases "m s")
    from m obtain n1 where n1: "calls s1 = calls s @ n1" "list_all P n1"
      unfolding only_calls_def using ms by (metis snd_conv)
    show "\<exists>new. calls (snd (cmd_bind m f s)) = calls s @ new \<and> list_all P new"
    proof (cases r)
      case (Inl e)
      with ms n1 show ?thesis by (auto simp: cmd_bind_def)
    next
      case (Inr v)
      from f [of v] obtain n2 where "calls (snd (f v s1)) = calls s1 @ n2" "list_all P n2"
        unfolding only_calls_def by blast
      with ms n1 Inr show ?thesis
        by (intro exI [of _ "n1 @ n2"]) (simp add: cmd_bind_def)
    qed
  qed
qed

lemma only_calls_pure:
  "only_calls P (cmd_return v)" "only_calls P (cmd_raise e)" "only_calls P (cmd_read g)"
  "only_calls P (cmd_lift h)" "only_calls P (handle_arg k)" "only_calls P (c_ulong k)"
  by (auto simp: only_calls_def cmd_return_def cmd_raise_def cmd_read_def cmd_lift_def
        handle_arg_def c_ulong_def split: option.splits)

lemma only_calls_write:
  "(\<And>s. calls (w s) = calls s) \<Longrightarrow> only_calls P (cmd_write w)"
  by (simp add: only_calls_def cmd_write_def)

lemma calls_gl_effect: "calls (gl_effect c s) = calls s"
  by (cases c) simp_all

lemma only_calls_gl: "P c \<Longrightarrow> only_calls P (gl c)"
  by (auto simp: only_calls_def gl_def calls_gl_effect)

lemma only_calls_gl_new: "P c \<Longrightarrow> only_calls P (gl_new c)"
  by (auto simp: only_calls_def gl_new_def gl_def calls_gl_effect)

lemma only_calls_for:
  "(\<And>x v. only_calls P (body x v)) \<Longrightarrow> only_calls P (cmd_for xs body v)"
  by (induction xs arbitrary: v) (simp_all add: only_calls_pure only_calls_bind)

lemma only_calls_option:
  "only_calls P a \<Longrightarrow> (\<And>x. only_calls P (b x))
     \<Longrightarrow> only_calls P (case v of None \<Rightarrow> a | Some x \<Rightarrow> b x)"
  by (cases v) simp_all

lemmas preserves_intros = preserves_bind preserves_pure preserves_write preserves_gl
  preserves_gl_new preserves_for preserves_option

lemmas only_calls_intros = only_calls_bind only_calls_pure only_calls_write only_calls_gl
  only_calls_gl_new only_calls_for only_calls_option

lemma compile_only_shader_calls: "only_calls is_shader_call (compile_shader_program srcs)"
  unfolding compile_shader_program_def compile_stage_def
  by (intro only_calls_intros) (simp_all add: split_def only_calls_intros)

subsection \<open>Failure of a shader stage or of the link\<close>

lemma cmd_for_append:
  "cmd_for (xs @ ys) body v = cmd_bind (cmd_for xs body v) (cmd_for ys body)"
  by (induction xs arbitrary: v)
     (auto simp: cmd_bind_def cmd_return_def fun_eq_iff split: prod.splits sum.splits)

lemma stage_ok:
  assumes "\<forall>c. \<not> gl_raises s c" and "compiles s src"
  shows "\<exists>hs' s'. compile_stage p src hs s = (Inr hs', s') \<and> same_driver s s'"
  using assms
  by (cases src) (simp add: compile_stage_def cmd_defs compiles_def same_driver_def)

lemma stage_fail:
  assumes "\<forall>c. \<not> gl_raises s c" and "compile_log s source shader_type = Some msg"
  shows "fst (compile_stage p (source, shader_type) hs s) = Inl (RuntimeError msg)"
  using assms by (simp add: compile_stage_def cmd_defs)

lemma stages_ok:
  assumes "\<forall>c. \<not> gl_raises s c" and "list_all (compiles s) srcs"
  shows "\<exists>hs' s'. cmd_for srcs (compile_stage p) hs s = (Inr hs', s') \<and> same_driver s s'"
  using assms
proof (induction srcs arbitrary: s hs)
  case Nil
  then show ?case by (simp add: cmd_return_def same_driver_def)
next
  case (Cons src srcs)
  from Cons.prems obtain hs1 s1 where
    first: "compile_stage p src hs s = (Inr hs1, s1)" "same_driver s s1"
    using stage_ok [of s src p hs] by auto
  from first(2) Cons.prems have "\<forall>c. \<not> gl_raises s1 c" "list_all (compiles s1) srcs"
    by (simp_all add: same_driver_def compiles_def)
  from Cons.IH [OF this, of hs1] obtain hs2 s2 where
    rest: "cmd_for srcs (compile_stage p) hs1 s1 = (Inr hs2, s2)" "same_driver s1 s2"
    by blast
  from first rest show ?case
    by (simp add: cmd_bind_def same_driver_def)
qed

lemma compile_error_raised:
  assumes quiet: "\<forall>c. \<not> gl_raises s c"
    and at: "srcs = pre @ (source, shader_type) # post"
    and pre: "list_all (compiles s) pre"
    and msg: "compile_log s source shader_type = Some msg"
  shows "fst (compile_shader_program srcs s) = Inl (RuntimeError msg)"
proof -
  let ?s0 = "s\<lparr>calls := calls s @ [glCreateProgram], next_name := next_name s + 1,
               shader_handle := Some (next_name s)\<rparr>"
  have q0: "\<forall>c. \<not> gl_raises ?s0 c" and pre0: "list_all (compiles ?s0) pre"
    using quiet pre by (simp_all add: compiles_def)
  from stages_ok [OF q0 pre0, of "next_name s" "[]"] obtain hs1 s1 where
    s1: "cmd_for pre (compile_stage (next_name s)) [] ?s0 = (Inr hs1, s1)" "same_driver ?s0 s1"
    by blast
  from s1(2) quiet msg have "\<forall>c. \<not> gl_raises s1 c" "compile_log s1 source shader_type = Some msg"
    by (simp_all add: same_driver_def)
  then have "fst (compile_stage (next_name s) (source, shader_type) hs1 s1) = Inl (RuntimeError msg)"
    by (rule stage_fail)
  then obtain s2 where
    "compile_stage (next_name s) (source, shader_type) hs1 s1 = (Inl (RuntimeError msg), s2)"
    by (metis prod.collapse)
  with s1(1) have "fst (cmd_for srcs (compile_stage (next_name s)) [] ?s0) = Inl (RuntimeError msg)"
    unfolding at cmd_for_append by (simp add: cmd_bind_def)
  then obtain s3 where
    "cmd_for srcs (compile_stage (next_name s)) [] ?s0 = (Inl (RuntimeError msg), s3)"
    by (metis prod.collapse)
  then show ?thesis
    using quiet by (simp add: compile_shader_program_def cmd_defs)
qed

lemma link_error_raised:
  assumes quiet: "\<forall>c. \<not> gl_raises s c"
    and all: "list_all (compiles s) srcs"
    and msg: "link_log s srcs = Some msg"
  shows "fst (compile_shader_program srcs s) = Inl (RuntimeError msg)"
proof -
  let ?s0 = "s\<lparr>calls := calls s @ [glCreateProgram], next_name := next_name s + 1,
               shader_handle := Some (next_name s)\<rparr>"
  have q0: "\<forall>c. \<not> gl_raises ?s0 c" and all0: "list_all (compiles ?s0) srcs"
    using quiet all by (simp_all add: compiles_def)
  from stages_ok [OF q0 all0, of "next_name s" "[]"] obtain hs1 s1 where
    s1: "cmd_for srcs (compile_stage (next_name s)) [] ?s0 = (Inr hs1, s1)" "same_driver ?s0 s1"
    by blast
  from s1(2) quiet msg have "\<forall>c. \<not> gl_raises s1 c" "link_log s1 srcs = Some msg"
    by (simp_all add: same_driver_def)
  with s1(1) show ?thesis
    using quiet by (simp add: compile_shader_program_def cmd_defs)
qed

lemma create_shader_frames:
  "preserves vbo_handle (create_shader r files)"
  "preserves vao_handle (create_shader r files)"
  "preserves buffer_store (create_shader r files)"
  "only_calls is_shader_call (create_shader r files)"
  unfolding create_shader_def compile_shader_program_def compile_stage_def
  by (intro preserves_intros only_calls_intros; simp add: split_def preserves_intros only_calls_intros)+

text \<open>
  Claim C6. In a context where no call raises, when the driver rejects a shader stage
  (the stages before it being accepted) or accepts every stage and rejects the link,
  the construction of either buffered renderer ends with a \<open>RuntimeError\<close> whose message
  is the info log of the driver. No buffer and no vertex array object was created: both
  handles are still \<open>None\<close>, the buffer store is untouched, and the only calls made
  are calls that build the shader program.
\<close>

theorem shader_failure_aborts_construction:
  assumes quiet: "\<forall>c. \<not> gl_raises s c"
    and failure:
      "(\<exists>pre source shader_type post.
          shader_sources r files = pre @ (source, shader_type) # post
          \<and> list_all (compiles s) pre \<and> compile_log s source shader_type = Some msg)
       \<or> (list_all (compiles s) (shader_sources r files)
          \<and> link_log s (shader_sources r files) = Some msg)"
  shows "\<exists>s'. OpenGLRenderer_init C r files s = (Inl (RuntimeError msg), s')
           \<and> vbo_handle s' = None \<and> vao_handle s' = None
           \<and> buffer_store s' = buffer_store s
           \<and> (\<exists>new. calls s' = calls s @ new \<and> list_all is_shader_call new)"
proof -
  let ?w = "s\<lparr>texture_id := texture (tilemap s), shader_handle := None,
              vbo_handle := None, vao_handle := None\<rparr>"
  have qw: "\<forall>c. \<not> gl_raises ?w c" using quiet by simp
  have cw: "compiles ?w = compiles s" by (simp add: compiles_def fun_eq_iff)
  have "fst (compile_shader_program (shader_sources r files) ?w) = Inl (RuntimeError msg)"
    using failure
  proof (elim disjE exE conjE)
    fix pre source shader_type post
    assume "shader_sources r files = pre @ (source, shader_type) # post"
      and "list_all (compiles s) pre" and "compile_log s source shader_type = Some msg"
    then show ?thesis
      using qw by (intro compile_error_raised [where pre = pre and post = post]) (simp_all add: cw)
  next
    assume "list_all (compiles s) (shader_sources r files)"
      and "link_log s (shader_sources r files) = Some msg"
    then show ?thesis
      using qw by (intro link_error_raised) (simp_all add: cw)
  qed
  then obtain s' where s': "create_shader r files ?w = (Inl (RuntimeError msg), s')"
    unfolding create_shader_def by (metis prod.collapse)
  have "vbo_handle (snd (create_shader r files ?w)) = vbo_handle ?w"
      "vao_handle (snd (create_shader r files ?w)) = vao_handle ?w"
      "buffer_store (snd (create_shader r files ?w)) = buffer_store ?w"
    using create_shader_frames(1-3) [of r files] by (simp_all add: preserves_def)
  then have "vbo_handle s' = None" "vao_handle s' = None" "buffer_store s' = buffer_store s"
    by (simp_all add: s')
  moreover have "\<exists>new. calls s' = calls s @ new \<and> list_all is_shader_call new"
  proof -
    from create_shader_frames(4) [of r files] obtain new where
      "calls (snd (create_shader r files ?w)) = calls ?w @ new" "list_all is_shader_call new"
      unfolding only_calls_def by blast
    then show ?thesis by (auto simp: s')
  qed
  moreover have "OpenGLRenderer_init C r files s = (Inl (RuntimeError msg), s')"
    using s' by (simp add: OpenGLRenderer_init_def cmd_bind_def cmd_write_def)
  ultimately show ?thesis by blast
qed

theorem shader_failure_aborts_construction_witness:
  "(\<forall>c. \<not> gl_raises broken33 c)
   \<and> (\<exists>s'. OpenGLRenderer_init C33 VertexBufferedRenderer files33 broken33
               = (Inl (RuntimeError ''0:1: syntax error''), s')
           \<and> vbo_handle s' = None \<and> vao_handle s' = None
           \<and> buffer_store s' = buffer_store broken33
           \<and> (\<exists>new. calls s' = calls broken33 @ new \<and> list_all is_shader_call new))"
proof -
  have quiet: "\<forall>c. \<not> gl_raises broken33 c"
    by (simp add: broken33_def ready33_def)
  have "shader_sources VertexBufferedRenderer files33
          = [(vert_source files33, GL_VERTEX_SHADER)] @ (frag_source files33, GL_FRAGMENT_SHADER) # []
        \<and> list_all (compiles broken33) [(vert_source files33, GL_VERTEX_SHADER)]
        \<and> compile_log broken33 (frag_source files33) GL_FRAGMENT_SHADER = Some ''0:1: syntax error''"
    by (simp add: compiles_def broken33_def)
  then have failure:
    "(\<exists>pre source shader_type post.
        shader_sources VertexBufferedRenderer files33 = pre @ (source, shader_type) # post
        \<and> list_all (compiles broken33) pre
        \<and> compile_log broken33 source shader_type = Some ''0:1: syntax error'')
     \<or> (list_all (compiles broken33) (shader_sources VertexBufferedRenderer files33)
        \<and> link_log broken33 (shader_sources VertexBufferedRenderer files33) = Some ''0:1: syntax error'')"
    by blast
  from shader_failure_aborts_construction [OF quiet failure, of C33] quiet show ?thesis
    by blast
qed

subsection \<open>Recalculating and drawing\<close>




lemma ready33_ready: "ready ready33 1 4 5"
  by (simp add: ready_def ready33_def)

lemma C33_facts:
  "TEXTURE_N_TILES_PER_ROW C33 \<noteq> 0" "TILEMAP_N_COLS C33 \<noteq> 0" "TILEMAP_N_ROWS C33 \<noteq> 0"
  by (simp_all add: C33_def)



text \<open>
  Claim C5. For a ready renderer and a tilemap of \<open>n\<close> unsigned 32-bit tile indices
  that fits the grid: the buffer of the point renderer has \<open>n\<close> entries, which are the
  entries of the backing buffer of the tilemap, its \<^verbatim>\<open>_update_vbo\<close> uploads them, and
  its \<^verbatim>\<open>draw\<close> makes one draw call, a point list of \<open>n\<close> points; the buffer of the
  per-vertex renderer has \<open>n * 6 * 2 * 2\<close> floats, that is \<open>n * 6\<close> vertices. For the
  three by three tilemap the counts are 9 and 54.
\<close>

theorem buffer_entry_counts:
  assumes "ready s p b a" and "tilemap_fits C (tilemap s)" and "tiles_are_uint32 (tilemap s)"
    and "TEXTURE_N_TILES_PER_ROW C \<noteq> 0" and "TILEMAP_N_COLS C \<noteq> 0" and "TILEMAP_N_ROWS C \<noteq> 0"
  shows "\<exists>vd m s1 s2.
            length (GeomBufferedRenderer_vertex_data (tilemap s)) = tilemap_len (tilemap s)
          \<and> map uint (GeomBufferedRenderer_vertex_data (tilemap s)) = map_tm (tilemap s)
          \<and> update_vbo C GeomBufferedRenderer s = (Inr (), s1)
          \<and> buffer_store s1 b = Some (Uints (GeomBufferedRenderer_vertex_data (tilemap s)))
          \<and> draw C GeomBufferedRenderer s = (Inr (), s2)
          \<and> calls s2 = calls s @
               [glBindTexture (texture_id s), glBindVertexArray a,
                glGetUniformLocation p ''projection'',
                glProgramUniformMatrix4fv p (uniform_location s ''projection'') m,
                glGetUniformLocation p ''n_cols'',
                glProgramUniform1i p (uniform_location s ''n_cols'') (TILEMAP_N_COLS C),
                glUseProgram p,
                glDrawArrays GL_POINTS 0 (tilemap_len (tilemap s))]
          \<and> VertexBufferedRenderer_vertex_data C (tilemap s) = Inr vd
          \<and> length vd = tilemap_len (tilemap s) * 6 * 2 * 2
          \<and> length (vertices vd) = tilemap_len (tilemap s) * 6"
proof -
  let ?tm = "tilemap s"
  have len: "length (GeomBufferedRenderer_vertex_data ?tm) = tilemap_len ?tm"
    by (simp add: GeomBufferedRenderer_vertex_data_def tilemap_len_def)
  have same: "map uint (GeomBufferedRenderer_vertex_data ?tm) = map_tm ?tm"
    using assms(3) uint32_roundtrip [of ?tm]
    by (intro nth_equalityI) (simp_all add: GeomBufferedRenderer_vertex_data_def)
  from assms(1) obtain s1 where
    up: "update_vbo C GeomBufferedRenderer s = (Inr (), s1)"
        "buffer_store s1 b = Some (Uints (GeomBufferedRenderer_vertex_data ?tm))"
    by (simp add: ready_def cmd_defs)
  obtain m where m: "get_projection_matrix C = Inr m"
    using assms(5,6) by (simp add: get_projection_matrix_value)
  from assms(1) have "\<forall>c. \<not> gl_raises s c" "shader_handle s = Some p" "vao_handle s = Some a"
    by (simp_all add: ready_def)
  from geom_draw_calls [OF this m] obtain s2 where
    dr: "draw C GeomBufferedRenderer s = (Inr (), s2)"
        "calls s2 = calls s @
               [glBindTexture (texture_id s), glBindVertexArray a,
                glGetUniformLocation p ''projection'',
                glProgramUniformMatrix4fv p (uniform_location s ''projection'') m,
                glGetUniformLocation p ''n_cols'',
                glProgramUniform1i p (uniform_location s ''n_cols'') (TILEMAP_N_COLS C),
                glUseProgram p,
                glDrawArrays GL_POINTS 0 (tilemap_len (tilemap s))]"
    by blast
  have vd: "VertexBufferedRenderer_vertex_data C ?tm = Inr (expected_vertex_data C ?tm)"
    using assms(2,4) by (rule vertex_data_value)
  have l1: "length (expected_vertex_data C ?tm) = tilemap_len ?tm * 6 * 2 * 2"
    using assms(2) by (simp add: length_expected_vertex_data tilemap_fits_def tilemap_len_def)
  have l2: "length (vertices (expected_vertex_data C ?tm)) = tilemap_len ?tm * 6"
    unfolding vertices_expected using assms(2)
    by (subst length_concat_const [where n = 6])
       (auto simp: length_quad_vertices length_loop_cells tilemap_fits_def tilemap_len_def)
  from len same up dr vd l1 l2 show ?thesis by blast
qed

theorem buffer_entry_counts_witness:
  "ready ready33 1 4 5 \<and> tilemap_fits C33 tm33 \<and> tiles_are_uint32 tm33
   \<and> (\<exists>vd m s2.
          length (GeomBufferedRenderer_vertex_data tm33) = 9
        \<and> draw C33 GeomBufferedRenderer ready33 = (Inr (), s2)
        \<and> calls s2 =
             [glBindTexture 1, glBindVertexArray 5, glGetUniformLocation 1 ''projection'',
              glProgramUniformMatrix4fv 1 0 m, glGetUniformLocation 1 ''n_cols'',
              glProgramUniform1i 1 0 3, glUseProgram 1, glDrawArrays GL_POINTS 0 9]
        \<and> VertexBufferedRenderer_vertex_data C33 tm33 = Inr vd
        \<and> length vd = 216 \<and> length (vertices vd) = 54)"
proof -
  have t: "tilemap ready33 = tm33" by (simp add: ready33_def)
  have n: "tilemap_len tm33 = 9" by (simp add: tilemap_len_def tm33_def)
  have f: "tilemap_fits C33 (tilemap ready33)" "tiles_are_uint32 (tilemap ready33)"
    by (simp_all add: t fits33 uint33)
  from buffer_entry_counts [OF ready33_ready f C33_facts]
  obtain vd m s2 where run:
      "length (GeomBufferedRenderer_vertex_data (tilemap ready33)) = tilemap_len (tilemap ready33)"
      "draw C33 GeomBufferedRenderer ready33 = (Inr (), s2)"
      "calls s2 = calls ready33 @
               [glBindTexture (texture_id ready33), glBindVertexArray 5,
                glGetUniformLocation 1 ''projection'',
                glProgramUniformMatrix4fv 1 (uniform_location ready33 ''projection'') m,
                glGetUniformLocation 1 ''n_cols'',
                glProgramUniform1i 1 (uniform_location ready33 ''n_cols'') (TILEMAP_N_COLS C33),
                glUseProgram 1,
                glDrawArrays GL_POINTS 0 (tilemap_len (tilemap ready33))]"
      "VertexBufferedRenderer_vertex_data C33 (tilemap ready33) = Inr vd"
      "length vd = tilemap_len (tilemap ready33) * 6 * 2 * 2"
      "length (vertices vd) = tilemap_len (tilemap ready33) * 6"
    by blast
  from run(1) have c1: "length (GeomBufferedRenderer_vertex_data tm33) = 9"
    by (simp add: t n)
  from run(3) have c2: "calls s2 =
             [glBindTexture 1, glBindVertexArray 5, glGetUniformLocation 1 ''projection'',
              glProgramUniformMatrix4fv 1 0 m, glGetUniformLocation 1 ''n_cols'',
              glProgramUniform1i 1 0 3, glUseProgram 1, glDrawArrays GL_POINTS 0 9]"
    by (simp add: t n ready33_def C33_def)
  from run(4,5,6) have c3: "VertexBufferedRenderer_vertex_data C33 tm33 = Inr vd"
      "length vd = 216" "length (vertices vd) = 54"
    by (simp_all add: t n)
  from ready33_ready fits33 uint33 run(2) c1 c2 c3 show ?thesis by blast
qed

end
